theory Spec2Isabelle
  imports Main "HOL-Library.Sublist"
begin

section \<open>Conventions\<close>

text \<open>
  The services of the web chat client and the HTTP handlers, as functions on explicit
  state. A function that can throw returns what was thrown next to the state it leaves.
  The loggers write to the console and nothing reads them back: their calls are left out.
  Where building a log line can throw, because it reads a property of a value that may be
  \<open>null\<close> or \<open>undefined\<close> or converts a value of the parsed message to a string, the
  throw is kept and noted at the function.
\<close>

section \<open>JavaScript values\<close>

text \<open>
  The values that \<open>JSON.parse\<close> and \<open>res.json()\<close> produce. A value of type
  \<open>json option\<close> is a JavaScript value that may be \<open>undefined\<close> (\<open>None\<close>): a
  property that is absent, an optional field. Numbers are integers here; the code only
  tests a number for being zero.
\<close>

datatype json =
    JNull
  | JBool bool
  | JNum int
  | JStr string
  | JArr "json list"
  | JObj "(string \<times> json) list"

text \<open>The value of \<open>v\<close> in a boolean context (\<open>if (v)\<close>, \<open>v || d\<close>, \<open>v ? a : b\<close>).\<close>

fun truthy :: "json option \<Rightarrow> bool" where
  "truthy None = False"
| "truthy (Some JNull) = False"
| "truthy (Some (JBool b)) = b"
| "truthy (Some (JNum n)) = (n \<noteq> 0)"
| "truthy (Some (JStr s)) = (s \<noteq> [])"
| "truthy (Some (JArr xs)) = True"
| "truthy (Some (JObj fs)) = True"

text \<open>
  The property read \<open>v.k\<close> for a value \<open>v\<close> that is not \<open>null\<close>: an object gives
  its field, every other value gives \<open>undefined\<close> for the field names the code reads.
  On \<open>null\<close> the read throws a TypeError; every function below tests for \<open>JNull\<close>
  before its first read.
\<close>

fun getProp :: "json \<Rightarrow> string \<Rightarrow> json option" where
  "getProp (JObj fs) k = map_of fs k"
| "getProp v k = None"

text \<open>\<open>typeof v === "object"\<close> for a truthy \<open>v\<close>.\<close>

fun isObject :: "json \<Rightarrow> bool" where
  "isObject (JArr xs) = True"
| "isObject (JObj fs) = True"
| "isObject v = False"

text \<open>
  A template literal \<open>`${v}`\<close> and \<open>new Error(v)\<close> convert \<open>v\<close> to a string. For
  a parsed JSON value the conversion throws a TypeError in one case: an object that has
  a field named \<open>toString\<close> of its own, which is never a function, so that neither it
  nor \<open>valueOf\<close> gives a primitive. An array is joined from the conversions of its
  elements other than \<open>null\<close>, and throws when one of them does.
\<close>

fun toStringThrows :: "json \<Rightarrow> bool" where
  "toStringThrows (JObj fs) = (map_of fs ''toString'' \<noteq> None)"
| "toStringThrows (JArr xs) = list_ex toStringThrows xs"
| "toStringThrows v = False"

text \<open>The conversion of a value that may be \<open>undefined\<close>, as in \<open>`${data.id || "N/A"}`\<close>:
  \<open>undefined\<close> and the other falsy values convert without a throw.\<close>

definition templateThrows :: "json option \<Rightarrow> bool" where
  "templateThrows v = (case v of None \<Rightarrow> False | Some x \<Rightarrow> toStringThrows x)"

text \<open>What a \<open>throw\<close> carries, by the name of the error.\<close>

datatype exn =
    TypeError
  | SyntaxError
  | NetworkError
  | ErrorEvent
  | Error string
  | ErrorOf json
  | CallbackThrew nat

text \<open>A number in a template literal: its decimal digits.\<close>

fun decimal :: "nat \<Rightarrow> string" where
  "decimal n =
     (if n < 10 then [char_of (48 + n)]
      else decimal (n div 10) @ [char_of (48 + n mod 10)])"

declare decimal.simps [simp del]

section \<open>The configuration service (\<open>WebConfigService\<close>)\<close>

text \<open>
  The two fields of the service, which are also the \<open>Config\<close> it returns. They are
  declared \<open>string\<close>; \<open>loadFromServer\<close> assigns them from the untyped response body,
  so they hold whatever truthy value the server sent.
\<close>

record Config =
  gatewayUrl :: json
  gatewayToken :: json

text \<open>
  The outcome of \<open>await fetch("/api/config")\<close> followed by \<open>await res.json()\<close>:
  the fetch rejects, or it gives a response with its \<open>ok\<close> flag, \<open>status\<close> and
  \<open>statusText\<close>, whose body parses to a value (\<open>Some\<close>) or does not parse
  (\<open>None\<close>, \<open>res.json()\<close> rejects).
\<close>

datatype fetch_result =
    FetchRejected
  | FetchResponse bool nat string "json option"

text \<open>The \<open>try\<close> block of \<open>loadFromServer\<close>: the service afterwards, and what was
  thrown (\<open>Inl\<close>) or returned (\<open>Inr\<close>).\<close>

definition loadFromServer_try :: "Config \<Rightarrow> fetch_result \<Rightarrow> Config \<times> (exn + Config)" where
  "loadFromServer_try this r =
     (case r of
        FetchRejected \<Rightarrow> (this, Inl NetworkError)
      | FetchResponse ok code statusText body \<Rightarrow>
          if \<not> ok then (this, Inl (Error (''HTTP '' @ decimal code @ '': '' @ statusText)))
          else (case body of
                  None \<Rightarrow> (this, Inl SyntaxError)
                | Some config \<Rightarrow>
                    if config = JNull then (this, Inl TypeError)
                    else
                      let this1 = (case getProp config ''gatewayUrl'' of
                                     None \<Rightarrow> this
                                   | Some v \<Rightarrow> if truthy (Some v) then this\<lparr>gatewayUrl := v\<rparr> else this);
                          this2 = (case getProp config ''gatewayToken'' of
                                     None \<Rightarrow> this1
                                   | Some v \<Rightarrow> if truthy (Some v) then this1\<lparr>gatewayToken := v\<rparr> else this1)
                      in (this2, Inr \<lparr>gatewayUrl = gatewayUrl this2, gatewayToken = gatewayToken this2\<rparr>)))"

text \<open>\<open>loadFromServer\<close>: the \<open>catch\<close> block returns the fields as they are then.\<close>

definition loadFromServer :: "Config \<Rightarrow> fetch_result \<Rightarrow> Config \<times> (exn + Config)" where
  "loadFromServer this r =
     (case loadFromServer_try this r of
        (this', Inr cfg) \<Rightarrow> (this', Inr cfg)
      | (this', Inl err) \<Rightarrow>
          (this', Inr \<lparr>gatewayUrl = gatewayUrl this', gatewayToken = gatewayToken this'\<rparr>))"

section \<open>The chat service (\<open>WebChatService\<close>)\<close>

record ContentSegment =
  seg_type :: string
  seg_text :: string

text \<open>The \<open>message\<close> of a history entry. \<open>loadHistory\<close> reads it with \<open>?.\<close>, so
  the message and its content may be absent.\<close>

record ChatMessage =
  role :: string
  content :: "ContentSegment list option"
  msg_timestamp :: int

record HistoryEntry =
  entry_type :: string
  entry_id :: string
  entry_timestamp :: string
  message :: "ChatMessage option"

record ChatHistoryResponse =
  hist_sessionKey :: string
  hist_sessionId :: string
  messages :: "HistoryEntry list option"

text \<open>The children of the chat container: a message \<open>div\<close> with its class name, the
  text of its role \<open>div\<close> and the text of its content \<open>div\<close>, or the loading indicator.\<close>

datatype dom_node =
    MessageDiv string string string
  | LoadingDiv

definition addMessage :: "dom_node list \<Rightarrow> string \<Rightarrow> string \<Rightarrow> dom_node list" where
  "addMessage chatContainer r c =
     chatContainer @ [MessageDiv (''message '' @ r) (if r = ''user'' then ''You'' else ''Assistant'') c]"

text \<open>The body of the \<open>for\<close> loop of \<open>loadHistory\<close>: role and content of one entry.\<close>

definition entryRole :: "HistoryEntry \<Rightarrow> string" where
  "entryRole msg =
     (case message msg of
        None \<Rightarrow> ''unknown''
      | Some m \<Rightarrow> if role m = [] then ''unknown'' else role m)"

definition entryContent :: "HistoryEntry \<Rightarrow> string" where
  "entryContent msg =
     (case message msg of
        None \<Rightarrow> []
      | Some m \<Rightarrow> (case content m of None \<Rightarrow> [] | Some cs \<Rightarrow> concat (map seg_text cs)))"

fun replay :: "dom_node list \<Rightarrow> HistoryEntry list \<Rightarrow> dom_node list" where
  "replay chatContainer [] = chatContainer"
| "replay chatContainer (msg # rest) =
     replay (addMessage chatContainer (entryRole msg) (entryContent msg)) rest"

text \<open>\<open>loadHistory\<close>, given what \<open>await getChatHistory(...)\<close> returned (\<open>None\<close> is
  \<open>null\<close>): the chat container afterwards.\<close>

definition loadHistory :: "dom_node list \<Rightarrow> ChatHistoryResponse option \<Rightarrow> dom_node list" where
  "loadHistory chatContainer history =
     (case history of
        None \<Rightarrow> chatContainer
      | Some h \<Rightarrow>
          (case messages h of
             None \<Rightarrow> chatContainer
           | Some ms \<Rightarrow> replay chatContainer (rev ms)))"

text \<open>The node that \<open>addMessage\<close> makes for one entry.\<close>

definition entryNode :: "HistoryEntry \<Rightarrow> dom_node" where
  "entryNode msg =
     MessageDiv (''message '' @ entryRole msg)
       (if entryRole msg = ''user'' then ''You'' else ''Assistant'') (entryContent msg)"

section \<open>The HTTP handlers\<close>


record HandlerOptions =
  basePath :: string
  staticDir :: string
  opt_gatewayUrl :: string
  opt_gatewayToken :: string

text \<open>
  What the handlers use of Node: \<open>statSync\<close> (\<open>None\<close> when it throws, else whether the
  path is a file), \<open>readFileSync\<close> (\<open>None\<close> when it throws), \<open>path.join\<close> and
  \<open>path.extname\<close>.
\<close>

record node_env =
  statSync :: "string \<Rightarrow> bool option"
  readFileSync :: "string \<Rightarrow> string option"
  path_join :: "string \<Rightarrow> string \<Rightarrow> string"
  extname :: "string \<Rightarrow> string"

text \<open>What was written to the \<open>ServerResponse\<close>, in order. The body of \<open>/api/config\<close>
  is kept as the value given to \<open>JSON.stringify\<close>.\<close>

datatype res_body = Text string | JsonDoc json

datatype res_op =
    WriteHead nat "(string \<times> string) list"
  | End res_body

definition mimeTypes :: "(string \<times> string) list" where
  "mimeTypes =
     [(''.html'', ''text/html''),
      (''.js'', ''application/javascript''),
      (''.css'', ''text/css''),
      (''.json'', ''application/json''),
      (''.png'', ''image/png''),
      (''.jpg'', ''image/jpeg''),
      (''.svg'', ''image/svg+xml'')]"

definition notFound :: "res_op list" where
  "notFound = [WriteHead 404 [(''Content-Type'', ''text/plain'')], End (Text ''Not Found'')]"

text \<open>\<open>serveStaticFile\<close>, the same code in both files: the response afterwards and the
  returned flag; a throw of \<open>statSync\<close> or \<open>readFileSync\<close> is caught and gives
  \<open>false\<close>.\<close>

definition serveStaticFile :: "node_env \<Rightarrow> string \<Rightarrow> res_op list \<Rightarrow> res_op list \<times> bool" where
  "serveStaticFile env filePath res =
     (case statSync env filePath of
        None \<Rightarrow> (res, False)
      | Some isFile \<Rightarrow>
          if \<not> isFile then (res @ notFound, True)
          else
            let contentType = (case map_of mimeTypes (extname env filePath) of
                                 None \<Rightarrow> ''application/octet-stream''
                               | Some t \<Rightarrow> if t = [] then ''application/octet-stream'' else t)
            in (case readFileSync env filePath of
                  None \<Rightarrow> (res, False)
                | Some c \<Rightarrow>
                    (res @ [WriteHead 200 [(''Content-Type'', contentType), (''Cache-Control'', ''no-cache'')],
                            End (Text c)], True)))"

text \<open>\<open>url.pathname.slice(basePath.length) || "/"\<close>\<close>

definition relativePath :: "HandlerOptions \<Rightarrow> string \<Rightarrow> string" where
  "relativePath opts pathname =
     (if drop (length (basePath opts)) pathname = [] then ''/''
      else drop (length (basePath opts)) pathname)"

definition configDocument :: "HandlerOptions \<Rightarrow> res_op list" where
  "configDocument opts =
     [WriteHead 200 [(''Content-Type'', ''application/json'')],
      End (JsonDoc (JObj [(''gatewayUrl'', JStr (opt_gatewayUrl opts)),
                          (''gatewayToken'', JStr (opt_gatewayToken opts))]))]"

definition filePathFor :: "HandlerOptions \<Rightarrow> node_env \<Rightarrow> string \<Rightarrow> string" where
  "filePathFor opts env rel =
     (if rel = ''/'' \<or> suffix ''.html'' rel then path_join env (staticDir opts) ''index.html''
      else if prefix ''/src/'' rel then path_join env (staticDir opts) rel
      else if prefix ''/dist/'' rel then path_join env (staticDir opts) rel
      else path_join env (staticDir opts) rel)"

text \<open>
  The handler that \<open>createWebotHttpHandler\<close> returns (\<open>src/server-http-only.ts\<close>). Its
  request is given by \<open>url.pathname\<close>, or \<open>None\<close> when \<open>new URL(...)\<close> throws, which
  rejects the handler's promise (\<open>Inl\<close>).
\<close>

definition createWebotHttpHandler ::
  "HandlerOptions \<Rightarrow> node_env \<Rightarrow> string option \<Rightarrow> res_op list \<Rightarrow> res_op list \<times> (exn + bool)" where
  "createWebotHttpHandler opts env url res =
     (case url of
        None \<Rightarrow> (res, Inl TypeError)
      | Some pathname \<Rightarrow>
          if \<not> prefix (basePath opts) pathname then (res, Inr False)
          else
            let rel = relativePath opts pathname in
            if rel = ''/api/config'' then (res @ configDocument opts, Inr True)
            else
              (case serveStaticFile env (filePathFor opts env rel) res of
                 (res1, True) \<Rightarrow> (res1, Inr True)
               | (res1, False) \<Rightarrow>
                   (case serveStaticFile env (path_join env (staticDir opts) ''index.html'') res1 of
                      (res2, True) \<Rightarrow> (res2, Inr True)
                    | (res2, False) \<Rightarrow> (res2 @ notFound, Inr True))))"

text \<open>
  The handler that \<open>createWebotIntegrationHandler\<close> returns (\<open>moltbot-integration.ts\<close>):
  the same steps, with each call of \<open>serveStaticFile\<close> in a \<open>try\<close> of its own, whose
  \<open>catch\<close> only logs and goes on as for \<open>false\<close>; \<open>serveStaticFile\<close> catches its
  own errors, so the two \<open>catch\<close> blocks have nothing to catch.
\<close>

definition createWebotIntegrationHandler ::
  "HandlerOptions \<Rightarrow> node_env \<Rightarrow> string option \<Rightarrow> res_op list \<Rightarrow> res_op list \<times> (exn + bool)" where
  "createWebotIntegrationHandler opts env url res =
     (case url of
        None \<Rightarrow> (res, Inl TypeError)
      | Some pathname \<Rightarrow>
          if \<not> prefix (basePath opts) pathname then (res, Inr False)
          else
            let rel = relativePath opts pathname in
            if rel = ''/api/config'' then (res @ configDocument opts, Inr True)
            else
              (case serveStaticFile env (filePathFor opts env rel) res of
                 (res1, served) \<Rightarrow>
                   if served then (res1, Inr True)
                   else
                     (case serveStaticFile env (path_join env (staticDir opts) ''index.html'') res1 of
                        (res2, served2) \<Rightarrow>
                          if served2 then (res2, Inr True)
                          else (res2 @ notFound, Inr True))))"

text \<open>
  The claim's words, "the path lies under the base path": the path is the base path or
  goes on below it after a \<open>/\<close>.
\<close>

definition spec_liesUnder :: "string \<Rightarrow> string \<Rightarrow> bool" where
  "spec_liesUnder base pathname = (pathname = base \<or> prefix (base @ ''/'') pathname)"

section \<open>The gateway session (\<open>WebSocketService\<close>)\<close>

subsection \<open>Frames\<close>

record RequestFrame =
  req_id :: string
  req_method :: string
  req_params :: "json option"

text \<open>
  A response frame as \<open>handleResponse\<close> reads it. \<open>ok\<close> is the declared boolean.
  \<open>id\<close>, \<open>payload\<close> and \<open>error\<close> are the values found in the parsed message,
  \<open>None\<close> when absent.
\<close>

record ResponseFrame =
  res_id :: "json option"
  res_ok :: bool
  res_payload :: "json option"
  res_error :: "json option"

record EventFrame =
  ev_event :: "json option"
  ev_seq :: "json option"
  ev_payload :: "json option"

text \<open>
  The casts \<open>data as unknown as ResponseFrame\<close> and \<open>data as unknown as EventFrame\<close>
  of \<open>handleMessage\<close>, for a \<open>data\<close> that is not \<open>null\<close>. The code reads \<open>ok\<close>
  in boolean contexts only, so the frame holds its truth value.
\<close>

definition asResponseFrame :: "json \<Rightarrow> ResponseFrame" where
  "asResponseFrame data =
     \<lparr>res_id = getProp data ''id'',
      res_ok = truthy (getProp data ''ok''),
      res_payload = getProp data ''payload'',
      res_error = getProp data ''error''\<rparr>"

definition asEventFrame :: "json \<Rightarrow> EventFrame" where
  "asEventFrame data =
     \<lparr>ev_event = getProp data ''event'',
      ev_seq = getProp data ''seq'',
      ev_payload = getProp data ''payload''\<rparr>"

subsection \<open>The service and what it runs in\<close>

datatype ready_state = CONNECTING | OPEN | CLOSING | CLOSED

datatype ConnectionStatus = Connected | Connecting | Disconnected

record ConnectionState =
  status :: ConnectionStatus
  lastError :: "string option"
  lastConnectedAt :: "nat option"
  disconnectedAt :: "nat option"

text \<open>
  A subscriber: a name, and whether the function throws when called with a given
  argument. A subscriber is code of the caller; it is taken not to call back into the
  service while it runs.
\<close>

datatype 'a callback = Callback (cb_name: nat) (cb_throws: "'a \<Rightarrow> bool")

text \<open>The subscriber calls made, in order.\<close>

datatype call =
    ConnectCall nat
  | DisconnectCall nat
  | EventCall nat
  | ChatEventCall nat

text \<open>
  The closure \<open>handler\<close> of \<open>sendWithResponse\<close>: the frame it waits for and the
  promise it resolves (promises are numbered, so the number tells two closures apart).
\<close>

datatype listener = ResponseHandler RequestFrame nat

text \<open>A \<open>WebSocket\<close> made by \<open>connect\<close>: \<open>connectPromise\<close> is the promise that its
  \<open>onopen\<close> resolves and its \<open>onerror\<close> rejects; \<open>sent\<close> is what was given to
  \<open>send\<close>.\<close>

record socket =
  sock_url :: json
  readyState :: ready_state
  listeners :: "listener list"
  sent :: "RequestFrame list"
  connectPromise :: nat

text \<open>The two closures given to \<open>setTimeout\<close>.\<close>

datatype timer_action =
    Reconnect
  | RequestTimeout listener

datatype promise_state =
    Pending
  | Fulfilled "json option"
  | Rejected exn

text \<open>An entry of \<open>pendingRequests\<close>: \<open>resolve\<close> and \<open>reject\<close> are the two
  functions of one promise, \<open>timeout\<close> is the number of a timer.\<close>

record PendingRequest =
  pr_promise :: nat
  pr_timeout :: nat

text \<open>
  The fields of the service (\<open>ws\<close> to \<open>pendingRequests\<close>; \<open>ws\<close> is the number of a
  socket), and the objects they refer to: the sockets made so far, the timers that are
  set (number, delay, closure), the promises made so far, the clock that \<open>new Date()\<close>
  reads, the UUIDs handed out, the subscriber calls made, and which URLs the
  \<open>WebSocket\<close> constructor accepts without throwing.
\<close>

record session =
  ws :: "nat option"
  connected :: bool
  sessionKey :: string
  configService :: Config
  connectionState :: ConnectionState
  connectCallbacks :: "unit callback list"
  disconnectCallbacks :: "string callback list"
  eventCallbacks :: "EventFrame callback list"
  chatEventCallbacks :: "json option callback list"
  pendingRequests :: "(string \<times> PendingRequest) list"
  sockets :: "socket list"
  timers :: "(nat \<times> nat \<times> timer_action) list"
  timerCount :: nat
  promises :: "promise_state list"
  now :: nat
  uuidCount :: nat
  calls :: "call list"
  urlAccepted :: "json \<Rightarrow> bool"

definition randomUUID :: "nat \<Rightarrow> string" where
  "randomUUID n = ''uuid-'' @ decimal n"

text \<open>The constructor. \<open>crypto.randomUUID()\<close> is called for the session key only when
  no key is given.\<close>

definition newWebSocketService :: "Config \<Rightarrow> string option \<Rightarrow> (json \<Rightarrow> bool) \<Rightarrow> session" where
  "newWebSocketService cfg initialSessionKey accepts =
     \<lparr>ws = None,
      connected = False,
      sessionKey = (case initialSessionKey of
                      None \<Rightarrow> ''webchat-'' @ take 8 (randomUUID 0)
                    | Some k \<Rightarrow> if k = [] then ''webchat-'' @ take 8 (randomUUID 0) else k),
      configService = cfg,
      connectionState = \<lparr>status = Disconnected, lastError = None,
                          lastConnectedAt = None, disconnectedAt = None\<rparr>,
      connectCallbacks = [],
      disconnectCallbacks = [],
      eventCallbacks = [],
      chatEventCallbacks = [],
      pendingRequests = [],
      sockets = [],
      timers = [],
      timerCount = 0,
      promises = [],
      now = 0,
      uuidCount = (case initialSessionKey of
                     None \<Rightarrow> 1
                   | Some k \<Rightarrow> if k = [] then 1 else 0),
      calls = [],
      urlAccepted = accepts\<rparr>"

subsection \<open>Promises, timers, sockets\<close>

text \<open>\<open>new Promise\<close>: the number of the new promise is the number of promises so far.\<close>

definition newPromise :: "session \<Rightarrow> session" where
  "newPromise s = s\<lparr>promises := promises s @ [Pending]\<rparr>"

text \<open>Settling a promise: the first settlement stays, a later one does nothing.\<close>

definition settle :: "nat \<Rightarrow> promise_state \<Rightarrow> session \<Rightarrow> session" where
  "settle p v s =
     (if p < length (promises s) \<and> promises s ! p = Pending
      then s\<lparr>promises := (promises s)[p := v]\<rparr> else s)"

definition resolve :: "nat \<Rightarrow> json option \<Rightarrow> session \<Rightarrow> session" where
  "resolve p v s = settle p (Fulfilled v) s"

definition reject :: "nat \<Rightarrow> exn \<Rightarrow> session \<Rightarrow> session" where
  "reject p e s = settle p (Rejected e) s"

text \<open>The state of promise \<open>p\<close>, \<open>None\<close> when there is no such promise.\<close>

definition promiseState :: "session \<Rightarrow> nat \<Rightarrow> promise_state option" where
  "promiseState s p = (if p < length (promises s) then Some (promises s ! p) else None)"

text \<open>\<open>setTimeout\<close>: the number of the new timer is \<open>timerCount\<close>.\<close>

definition setTimeout :: "timer_action \<Rightarrow> nat \<Rightarrow> session \<Rightarrow> session" where
  "setTimeout a delay s =
     s\<lparr>timers := timers s @ [(timerCount s, delay, a)], timerCount := Suc (timerCount s)\<rparr>"

definition clearTimeout :: "nat \<Rightarrow> session \<Rightarrow> session" where
  "clearTimeout t s = s\<lparr>timers := filter (\<lambda>x. fst x \<noteq> t) (timers s)\<rparr>"

definition updateSocket :: "nat \<Rightarrow> (socket \<Rightarrow> socket) \<Rightarrow> session \<Rightarrow> session" where
  "updateSocket k f s =
     (if k < length (sockets s) then s\<lparr>sockets := (sockets s)[k := f (sockets s ! k)]\<rparr> else s)"

definition addEventListener :: "nat \<Rightarrow> listener \<Rightarrow> session \<Rightarrow> session" where
  "addEventListener k h s = updateSocket k (\<lambda>so. so\<lparr>listeners := listeners so @ [h]\<rparr>) s"

definition removeEventListener :: "nat \<Rightarrow> listener \<Rightarrow> session \<Rightarrow> session" where
  "removeEventListener k h s = updateSocket k (\<lambda>so. so\<lparr>listeners := remove1 h (listeners so)\<rparr>) s"

text \<open>\<open>this.ws?.removeEventListener("message", handler)\<close>\<close>

definition removeFromCurrent :: "listener \<Rightarrow> session \<Rightarrow> session" where
  "removeFromCurrent h s = (case ws s of None \<Rightarrow> s | Some k \<Rightarrow> removeEventListener k h s)"

text \<open>\<open>this.ws.readyState === WebSocket.OPEN\<close>, false when \<open>this.ws\<close> is \<open>null\<close>.\<close>

definition wsOpen :: "session \<Rightarrow> bool" where
  "wsOpen s =
     (case ws s of
        None \<Rightarrow> False
      | Some k \<Rightarrow> k < length (sockets s) \<and> readyState (sockets s ! k) = OPEN)"

text \<open>\<open>ws.send(JSON.stringify(frame))\<close> on socket \<open>k\<close>.\<close>

definition socketSend :: "nat \<Rightarrow> RequestFrame \<Rightarrow> session \<Rightarrow> session" where
  "socketSend k frame s = updateSocket k (\<lambda>so. so\<lparr>sent := sent so @ [frame]\<rparr>) s"

text \<open>\<open>ws.close()\<close>: a socket that is connecting or open starts closing; its \<open>close\<close>
  event comes later, from the browser.\<close>

definition socketClose :: "nat \<Rightarrow> session \<Rightarrow> session" where
  "socketClose k s =
     updateSocket k (\<lambda>so. if readyState so = CONNECTING \<or> readyState so = OPEN
                          then so\<lparr>readyState := CLOSING\<rparr> else so) s"

text \<open>
  \<open>callbacks.forEach(callback => callback(x))\<close>: the names of the subscribers called, in
  order, and what was thrown. A throw ends the \<open>forEach\<close>.
\<close>

fun forEachCallback :: "'a callback list \<Rightarrow> 'a \<Rightarrow> nat list \<times> exn option" where
  "forEachCallback [] x = ([], None)"
| "forEachCallback (Callback n f # cbs) x =
     (if f x then ([n], Some (CallbackThrew n))
      else (case forEachCallback cbs x of (ns, r) \<Rightarrow> (n # ns, r)))"

subsection \<open>State management\<close>

definition updateStatus :: "ConnectionStatus \<Rightarrow> string option \<Rightarrow> session \<Rightarrow> session" where
  "updateStatus st err s =
     (let cs1 = (connectionState s)\<lparr>status := st\<rparr>;
          cs2 = (case err of
                   None \<Rightarrow> cs1
                 | Some e \<Rightarrow> if e = [] then cs1 else cs1\<lparr>lastError := Some e\<rparr>);
          cs3 = (if st = Disconnected then cs2\<lparr>disconnectedAt := Some (now s)\<rparr> else cs2)
      in s\<lparr>connectionState := cs3\<rparr>)"

subsection \<open>Message sending\<close>

definition send :: "RequestFrame \<Rightarrow> session \<Rightarrow> session" where
  "send frame s =
     (if wsOpen s then (case ws s of None \<Rightarrow> s | Some k \<Rightarrow> socketSend k frame s) else s)"

text \<open>
  \<open>sendWithResponse\<close>: the returned promise has the number \<open>length (promises s)\<close>.
  Nothing here writes to \<open>pendingRequests\<close>: the request waits as a \<open>message\<close> listener
  on the socket and as a timer.
\<close>

definition sendWithResponse :: "RequestFrame \<Rightarrow> session \<Rightarrow> session" where
  "sendWithResponse frame s =
     (let p = length (promises s);
          s0 = newPromise s
      in if \<not> wsOpen s0 then resolve p (Some JNull) s0
         else (case ws s0 of
                 None \<Rightarrow> resolve p (Some JNull) s0
               | Some k \<Rightarrow>
                   let h = ResponseHandler frame p;
                       s1 = addEventListener k h s0;
                       s2 = socketSend k frame s1
                   in setTimeout (RequestTimeout h) 10000 s2))"

text \<open>The closure \<open>handler\<close> of \<open>sendWithResponse\<close>, called with the parsed
  \<open>event.data\<close> (\<open>None\<close> when \<open>JSON.parse\<close> throws). Its \<open>catch\<close> ignores every
  error: that of \<open>JSON.parse\<close>, that of \<open>data.type\<close> on \<open>null\<close>, and that of the
  log line, which converts \<open>data.ok\<close> to a string before the listener is removed and
  the promise resolved.\<close>

fun runListener :: "listener \<Rightarrow> json option \<Rightarrow> session \<Rightarrow> session" where
  "runListener (ResponseHandler frame p) parsed s =
     (case parsed of
        None \<Rightarrow> s
      | Some data \<Rightarrow>
          if data = JNull then s
          else if getProp data ''type'' = Some (JStr ''res'')
                  \<and> getProp data ''id'' = Some (JStr (req_id frame))
          then
            if templateThrows (getProp data ''ok'') then s
            else resolve p (if truthy (getProp data ''ok'') then getProp data ''payload'' else Some JNull)
                   (removeFromCurrent (ResponseHandler frame p) s)
          else s)"

text \<open>The closure of the timeout of \<open>sendWithResponse\<close>.\<close>

fun requestTimeout :: "listener \<Rightarrow> session \<Rightarrow> session" where
  "requestTimeout (ResponseHandler frame p) s =
     resolve p (Some JNull) (removeFromCurrent (ResponseHandler frame p) s)"

definition connectParams :: "session \<Rightarrow> json" where
  "connectParams s =
     JObj [(''minProtocol'', JNum 3),
           (''maxProtocol'', JNum 3),
           (''client'', JObj [(''id'', JStr ''webchat''),
                              (''displayName'', JStr ''Webot''),
                              (''version'', JStr ''1.0.0''),
                              (''platform'', JStr ''web''),
                              (''mode'', JStr ''webchat'')]),
           (''auth'', JObj (if truthy (Some (gatewayToken (configService s)))
                            then [(''token'', gatewayToken (configService s))] else [])),
           (''role'', JStr ''operator''),
           (''scopes'', JArr [JStr ''operator.admin''])]"

definition sendConnect :: "session \<Rightarrow> session" where
  "sendConnect s =
     send \<lparr>req_id = randomUUID (uuidCount s), req_method = ''connect'',
           req_params = Some (connectParams s)\<rparr>
       (s\<lparr>uuidCount := Suc (uuidCount s)\<rparr>)"

subsection \<open>Connection management\<close>

text \<open>\<open>Map.get\<close> and \<open>Map.delete\<close> on \<open>pendingRequests\<close> with the \<open>id\<close> of a
  frame: the keys are strings, so only a string finds an entry.\<close>

definition pendingGet :: "(string \<times> PendingRequest) list \<Rightarrow> json option \<Rightarrow> PendingRequest option" where
  "pendingGet m i = (case i of Some (JStr k) \<Rightarrow> map_of m k | _ \<Rightarrow> None)"

definition pendingDelete :: "(string \<times> PendingRequest) list \<Rightarrow> json option \<Rightarrow> (string \<times> PendingRequest) list" where
  "pendingDelete m i = (case i of Some (JStr k) \<Rightarrow> filter (\<lambda>e. fst e \<noteq> k) m | _ \<Rightarrow> m)"

text \<open>The body of the \<open>forEach\<close> of \<open>disconnect\<close>, over the entries in order.\<close>

fun rejectAll :: "(string \<times> PendingRequest) list \<Rightarrow> session \<Rightarrow> session" where
  "rejectAll [] s = s"
| "rejectAll ((i, request) # rest) s =
     rejectAll rest
       (reject (pr_promise request) (Error ''Connection closed'') (clearTimeout (pr_timeout request) s))"

definition disconnect :: "session \<Rightarrow> session" where
  "disconnect s =
     (let s1 = (case ws s of None \<Rightarrow> s | Some k \<Rightarrow> (socketClose k s)\<lparr>ws := None\<rparr>);
          s2 = s1\<lparr>connected := False\<rparr>;
          s3 = updateStatus Disconnected (Some ''Manually disconnected'') s2;
          s4 = rejectAll (pendingRequests s3) s3
      in s4\<lparr>pendingRequests := []\<rparr>)"

text \<open>
  \<open>connect\<close>: the returned promise has the number \<open>length (promises s)\<close>. Its log
  line converts the URL to a string; when that throws, or when the \<open>WebSocket\<close>
  constructor throws, \<open>this.ws\<close> stays as it was and the promise is rejected.
\<close>

definition connect :: "string option \<Rightarrow> session \<Rightarrow> session" where
  "connect url s =
     (let target = (case url of
                      None \<Rightarrow> gatewayUrl (configService s)
                    | Some u \<Rightarrow> if u = [] then gatewayUrl (configService s) else JStr u);
          s1 = updateStatus Connecting None s;
          p = length (promises s1);
          s2 = newPromise s1
      in if toStringThrows target then reject p TypeError s2
         else if urlAccepted s2 target
         then s2\<lparr>sockets := sockets s2 @ [\<lparr>sock_url = target, readyState = CONNECTING, listeners = [],
                                              sent = [], connectPromise = p\<rparr>],
                 ws := Some (length (sockets s2))\<rparr>
         else reject p SyntaxError s2)"

definition reconnect :: "session \<Rightarrow> session" where
  "reconnect s = connect None (disconnect s)"

subsection \<open>Message handling\<close>

text \<open>\<open>new Error(response.error?.message || "Request failed")\<close>: the error carries
  the message only. A truthy message that is not a string is kept as the value given to
  \<open>new Error\<close>, which converts it to a string; \<open>requestErrorThrows\<close> says when that
  conversion throws.\<close>

definition requestErrorThrows :: "json option \<Rightarrow> bool" where
  "requestErrorThrows e =
     (case e of
        None \<Rightarrow> False
      | Some JNull \<Rightarrow> False
      | Some v \<Rightarrow> templateThrows (getProp v ''message''))"

definition requestError :: "json option \<Rightarrow> exn" where
  "requestError e =
     (case e of
        None \<Rightarrow> Error ''Request failed''
      | Some JNull \<Rightarrow> Error ''Request failed''
      | Some v \<Rightarrow>
          (case getProp v ''message'' of
             None \<Rightarrow> Error ''Request failed''
           | Some (JStr m) \<Rightarrow> if m = [] then Error ''Request failed'' else Error m
           | Some w \<Rightarrow> if truthy (Some w) then ErrorOf w else Error ''Request failed''))"

text \<open>The payload is an object whose \<open>type\<close> is \<open>"hello-ok"\<close>:
  \<open>response.payload && typeof response.payload === "object"\<close> and
  \<open>payload.type === "hello-ok"\<close>.\<close>

definition isHelloOk :: "json option \<Rightarrow> bool" where
  "isHelloOk payload =
     (case payload of
        None \<Rightarrow> False
      | Some v \<Rightarrow> truthy (Some v) \<and> isObject v \<and> getProp v ''type'' = Some (JStr ''hello-ok''))"

text \<open>The first part of \<open>handleResponse\<close>, "Resolve pending request": the state
  afterwards, and what was thrown (by \<open>new Error\<close>, after the timer was cleared and
  before the promise is rejected and the entry deleted).\<close>

definition resolvePending :: "ResponseFrame \<Rightarrow> session \<Rightarrow> session \<times> exn option" where
  "resolvePending response s =
     (case pendingGet (pendingRequests s) (res_id response) of
        None \<Rightarrow> (s, None)
      | Some pending \<Rightarrow>
          let s' = clearTimeout (pr_timeout pending) s
          in if res_ok response
             then
               let s'' = resolve (pr_promise pending) (res_payload response) s'
               in (s''\<lparr>pendingRequests := pendingDelete (pendingRequests s'') (res_id response)\<rparr>, None)
             else if requestErrorThrows (res_error response) then (s', Some TypeError)
             else
               let s'' = reject (pr_promise pending) (requestError (res_error response)) s'
               in (s''\<lparr>pendingRequests := pendingDelete (pendingRequests s'') (res_id response)\<rparr>, None))"

definition handleResponse :: "ResponseFrame \<Rightarrow> session \<Rightarrow> session \<times> exn option" where
  "handleResponse response s =
     (case resolvePending response s of
        (s1, Some e) \<Rightarrow> (s1, Some e)
      | (s1, None) \<Rightarrow>
          if res_ok response \<and> isHelloOk (res_payload response)
          then
            let s2 = s1\<lparr>connected := True\<rparr>;
                s3 = updateStatus Connected (Some ''Connected'') s2;
                s4 = s3\<lparr>connectionState := (connectionState s3)\<lparr>lastConnectedAt := Some (now s3)\<rparr>\<rparr>
            in (case forEachCallback (connectCallbacks s4) () of
                  (ns, r) \<Rightarrow> (s4\<lparr>calls := calls s4 @ map ConnectCall ns\<rparr>, r))
          else (s1, None))"

text \<open>The log line of \<open>handleChatEvent\<close> throws a TypeError: it reads
  \<open>payload.sessionKey\<close>, which throws when the payload is \<open>undefined\<close> or \<open>null\<close>,
  and it converts \<open>sessionKey\<close>, \<open>runId\<close> and \<open>state\<close> to strings.\<close>

definition chatLogThrows :: "json option \<Rightarrow> bool" where
  "chatLogThrows payload =
     (case payload of
        None \<Rightarrow> True
      | Some v \<Rightarrow>
          v = JNull
          \<or> templateThrows (getProp v ''sessionKey'')
          \<or> templateThrows (getProp v ''runId'')
          \<or> templateThrows (getProp v ''state''))"

text \<open>\<open>handleChatEvent\<close>: the log line comes before any chat subscriber is called.\<close>

definition handleChatEvent :: "json option \<Rightarrow> session \<Rightarrow> session \<times> exn option" where
  "handleChatEvent payload s =
     (if chatLogThrows payload then (s, Some TypeError)
      else (case forEachCallback (chatEventCallbacks s) payload of
              (ns, r) \<Rightarrow> (s\<lparr>calls := calls s @ map ChatEventCall ns\<rparr>, r)))"

text \<open>\<open>handleEvent\<close>: its log line converts \<open>event.seq || "N/A"\<close> to a string before
  any subscriber is called.\<close>

definition handleEvent :: "EventFrame \<Rightarrow> session \<Rightarrow> session \<times> exn option" where
  "handleEvent event s =
     (if templateThrows (ev_seq event) then (s, Some TypeError)
      else
        (case forEachCallback (eventCallbacks s) event of
           (ns, r) \<Rightarrow>
             let s1 = s\<lparr>calls := calls s @ map EventCall ns\<rparr>
             in (case r of
                   Some e \<Rightarrow> (s1, Some e)
                 | None \<Rightarrow>
                     if ev_event event = Some (JStr ''chat'') then handleChatEvent (ev_payload event) s1
                     else (s1, None))))"

text \<open>The \<open>try\<close> block of \<open>handleMessage\<close>, given the parsed \<open>event.data\<close> (\<open>None\<close>
  when \<open>JSON.parse\<close> throws). Its log line reads \<open>data.type\<close>, which throws on
  \<open>null\<close>, and converts \<open>data.type\<close>, \<open>data.event || "N/A"\<close> and
  \<open>data.id || "N/A"\<close> to strings, before the frame is looked at.\<close>

definition handleMessage_try :: "json option \<Rightarrow> session \<Rightarrow> session \<times> exn option" where
  "handleMessage_try parsed s =
     (case parsed of
        None \<Rightarrow> (s, Some SyntaxError)
      | Some data \<Rightarrow>
          if data = JNull then (s, Some TypeError)
          else if templateThrows (getProp data ''type'')
                  \<or> templateThrows (getProp data ''event'')
                  \<or> templateThrows (getProp data ''id'')
          then (s, Some TypeError)
          else if getProp data ''type'' = Some (JStr ''event'')
                  \<and> getProp data ''event'' = Some (JStr ''connect.challenge'')
          then (sendConnect s, None)
          else if getProp data ''type'' = Some (JStr ''res'')
          then handleResponse (asResponseFrame data) s
          else if getProp data ''type'' = Some (JStr ''event'')
          then handleEvent (asEventFrame data) s
          else (s, None))"

text \<open>\<open>handleMessage\<close>: the \<open>catch\<close> logs what was thrown and returns.\<close>

definition handleMessage :: "json option \<Rightarrow> session \<Rightarrow> session \<times> exn option" where
  "handleMessage parsed s =
     (case handleMessage_try parsed s of
        (s', Some err) \<Rightarrow> (s', None)
      | (s', None) \<Rightarrow> (s', None))"

subsection \<open>The handlers of a socket and of the timers\<close>

text \<open>
  A \<open>message\<close> event on socket \<open>k\<close>: \<open>onmessage\<close> (set when the socket was made)
  runs first, then the listeners that were on the socket when the event came, in the
  order they were added. The result says whether anything was thrown out of a handler.
\<close>

definition onmessage :: "nat \<Rightarrow> json option \<Rightarrow> session \<Rightarrow> session \<times> exn option" where
  "onmessage k parsed s =
     (if k < length (sockets s)
      then (case handleMessage parsed s of
              (s1, r) \<Rightarrow> (fold (\<lambda>h. runListener h parsed) (listeners (sockets s ! k)) s1, r))
      else (s, None))"

definition onopen :: "nat \<Rightarrow> session \<Rightarrow> session" where
  "onopen k s =
     (if k < length (sockets s)
      then resolve (connectPromise (sockets s ! k)) None
             (updateSocket k (\<lambda>so. so\<lparr>readyState := OPEN\<rparr>) s)
      else s)"

definition onerror :: "nat \<Rightarrow> session \<Rightarrow> session" where
  "onerror k s =
     (if k < length (sockets s)
      then reject (connectPromise (sockets s ! k)) ErrorEvent
             (updateStatus Disconnected (Some ''Connection error'') s)
      else s)"

text \<open>\<open>onclose\<close>, with \<open>event.code\<close> and \<open>event.reason\<close>. A disconnect subscriber that
  throws ends the handler before the timer is set.\<close>

definition onclose :: "nat \<Rightarrow> nat \<Rightarrow> string \<Rightarrow> session \<Rightarrow> session \<times> exn option" where
  "onclose k code reason s =
     (if k < length (sockets s)
      then
        let s0 = updateSocket k (\<lambda>so. so\<lparr>readyState := CLOSED\<rparr>) s;
            s1 = s0\<lparr>connected := False\<rparr>;
            s2 = updateStatus Disconnected (Some (''Disconnected (code: '' @ decimal code @ '')'')) s1
        in (case forEachCallback (disconnectCallbacks s2) reason of
              (ns, r) \<Rightarrow>
                let s3 = s2\<lparr>calls := calls s2 @ map DisconnectCall ns\<rparr>
                in (case r of
                      Some e \<Rightarrow> (s3, Some e)
                    | None \<Rightarrow> (setTimeout Reconnect 3000 s3, None)))
      else (s, None))"

text \<open>A timer that is set runs out: it leaves the list and its closure runs.\<close>

definition fireTimer :: "nat \<Rightarrow> session \<Rightarrow> session" where
  "fireTimer t s =
     (case find (\<lambda>x. fst x = t) (timers s) of
        None \<Rightarrow> s
      | Some (i, delay, a) \<Rightarrow>
          let s1 = clearTimeout t s
          in (case a of
                Reconnect \<Rightarrow> reconnect s1
              | RequestTimeout h \<Rightarrow> requestTimeout h s1))"

subsection \<open>Runs of the service\<close>

text \<open>What happens to the service: calls of its public methods, events of its
  sockets, timers running out, the clock moving on. Nothing is assumed about the order
  in which the browser delivers the events.\<close>

datatype event =
    CallConnect "string option"
  | CallDisconnect
  | CallReconnect
  | CallSend RequestFrame
  | CallSendWithResponse RequestFrame
  | CallOnConnect "unit callback"
  | CallOnDisconnect "string callback"
  | CallOnEvent "EventFrame callback"
  | CallOnChatEvent "json option callback"
  | SocketOpen nat
  | SocketMessage nat "json option"
  | SocketError nat
  | SocketClose nat nat string
  | TimerFires nat
  | Tick nat

fun step :: "session \<Rightarrow> event \<Rightarrow> session" where
  "step s (CallConnect url) = connect url s"
| "step s CallDisconnect = disconnect s"
| "step s CallReconnect = reconnect s"
| "step s (CallSend frame) = send frame s"
| "step s (CallSendWithResponse frame) = sendWithResponse frame s"
| "step s (CallOnConnect cb) = s\<lparr>connectCallbacks := connectCallbacks s @ [cb]\<rparr>"
| "step s (CallOnDisconnect cb) = s\<lparr>disconnectCallbacks := disconnectCallbacks s @ [cb]\<rparr>"
| "step s (CallOnEvent cb) = s\<lparr>eventCallbacks := eventCallbacks s @ [cb]\<rparr>"
| "step s (CallOnChatEvent cb) = s\<lparr>chatEventCallbacks := chatEventCallbacks s @ [cb]\<rparr>"
| "step s (SocketOpen k) = onopen k s"
| "step s (SocketMessage k parsed) = fst (onmessage k parsed s)"
| "step s (SocketError k) = onerror k s"
| "step s (SocketClose k code reason) = fst (onclose k code reason s)"
| "step s (TimerFires t) = fireTimer t s"
| "step s (Tick d) = s\<lparr>now := now s + d\<rparr>"

definition run :: "session \<Rightarrow> event list \<Rightarrow> session" where
  "run s evs = foldl step s evs"

text \<open>The states the service can be in: a new service, and what a step makes of such
  a state.\<close>

inductive reachable :: "session \<Rightarrow> bool" where
  reachable_new: "reachable (newWebSocketService cfg key accepts)"
| reachable_step: "reachable s \<Longrightarrow> reachable (step s ev)"

subsection \<open>Invariants of the runs\<close>

fun promiseOf :: "listener \<Rightarrow> nat" where
  "promiseOf (ResponseHandler frame p) = p"

fun frameOf :: "listener \<Rightarrow> RequestFrame" where
  "frameOf (ResponseHandler frame p) = frame"

text \<open>A message event that the handler of \<open>sendWithResponse\<close> takes for the answer to
  \<open>frame\<close>: a parsed message with \<open>type\<close> \<open>"res"\<close> and the \<open>id\<close> of the frame.\<close>

fun answers :: "RequestFrame \<Rightarrow> event \<Rightarrow> bool" where
  "answers frame (SocketMessage k (Some data)) =
     (getProp data ''type'' = Some (JStr ''res'') \<and> getProp data ''id'' = Some (JStr (req_id frame)))"
| "answers frame ev = False"

text \<open>Every promise that a socket or a timer refers to has been made (its number is
  below \<open>n\<close>), and every timer has a number below the count \<open>c\<close>.\<close>

definition socketWf :: "nat \<Rightarrow> socket \<Rightarrow> bool" where
  "socketWf n so = (connectPromise so < n \<and> (\<forall>h \<in> set (listeners so). promiseOf h < n))"

fun timerWf :: "nat \<Rightarrow> nat \<Rightarrow> nat \<times> nat \<times> timer_action \<Rightarrow> bool" where
  "timerWf n c (t, d, Reconnect) = (t < c)"
| "timerWf n c (t, d, RequestTimeout h) = (t < c \<and> promiseOf h < n)"

definition wellFormed :: "session \<Rightarrow> bool" where
  "wellFormed s =
     (pendingRequests s = []
      \<and> (\<forall>so \<in> set (sockets s). socketWf (length (promises s)) so)
      \<and> (\<forall>x \<in> set (timers s). timerWf (length (promises s)) (timerCount s) x))"

text \<open>
  What a run keeps of one request: \<open>frame\<close> was sent with \<open>sendWithResponse\<close>, which
  returned promise \<open>p\<close> and set timer \<open>T\<close>. No socket has \<open>p\<close> as the promise of its
  \<open>connect\<close>; the only listener and the only timer closure that settle \<open>p\<close> are those
  of this request; timer \<open>T\<close> is the one of this request; and \<open>p\<close> is pending or
  resolved to \<open>null\<close>.
\<close>

definition socketTracks :: "RequestFrame \<Rightarrow> nat \<Rightarrow> socket \<Rightarrow> bool" where
  "socketTracks frame p so =
     (connectPromise so \<noteq> p
      \<and> (\<forall>h \<in> set (listeners so). promiseOf h = p \<longrightarrow> frameOf h = frame))"

fun timerTracks :: "RequestFrame \<Rightarrow> nat \<Rightarrow> nat \<Rightarrow> nat \<times> nat \<times> timer_action \<Rightarrow> bool" where
  "timerTracks frame p T (t, d, Reconnect) = (t \<noteq> T)"
| "timerTracks frame p T (t, d, RequestTimeout h) =
     ((promiseOf h = p \<longrightarrow> frameOf h = frame)
      \<and> (t = T \<longrightarrow> promiseOf h = p))"

definition tracks :: "RequestFrame \<Rightarrow> nat \<Rightarrow> nat \<Rightarrow> session \<Rightarrow> bool" where
  "tracks frame p T s =
     (p < length (promises s) \<and> T < timerCount s
      \<and> (\<forall>so \<in> set (sockets s). socketTracks frame p so)
      \<and> (\<forall>x \<in> set (timers s). timerTracks frame p T x)
      \<and> (promises s ! p = Pending \<or> promises s ! p = Fulfilled (Some JNull)))"

text \<open>The request \<open>frame\<close> with promise \<open>p\<close> and timer \<open>T\<close> is waiting in a well-formed
  state: while \<open>p\<close> is pending, its timer of 10000 ms is set.\<close>

definition waiting :: "RequestFrame \<Rightarrow> nat \<Rightarrow> nat \<Rightarrow> session \<Rightarrow> bool" where
  "waiting frame p T s =
     (wellFormed s \<and> tracks frame p T s
      \<and> (promises s ! p = Pending \<longrightarrow>
           (T, 10000, RequestTimeout (ResponseHandler frame p)) \<in> set (timers s)))"

section \<open>Concrete inputs\<close>

text \<open>The inputs at which the theorems below are evaluated.\<close>

definition exampleConfig :: Config where
  "exampleConfig = \<lparr>gatewayUrl = JStr ''ws://127.0.0.1:18789'', gatewayToken = JStr []\<rparr>"

definition exampleServerConfig :: json where
  "exampleServerConfig = JObj [(''gatewayUrl'', JStr ''ws://gw:1/''), (''gatewayToken'', JStr [])]"

definition exampleEntry :: "string \<Rightarrow> string \<Rightarrow> int \<Rightarrow> HistoryEntry" where
  "exampleEntry r t n =
     \<lparr>entry_type = ''message'', entry_id = t, entry_timestamp = t,
      message = Some \<lparr>role = r, content = Some [\<lparr>seg_type = ''text'', seg_text = t\<rparr>],
                      msg_timestamp = n\<rparr>\<rparr>"

definition exampleHistory :: ChatHistoryResponse where
  "exampleHistory =
     \<lparr>hist_sessionKey = ''s1'', hist_sessionId = ''1'',
      messages = Some [exampleEntry ''assistant'' ''second'' 2, exampleEntry ''user'' ''first'' 1]\<rparr>"

definition entryStamp :: "HistoryEntry \<Rightarrow> int" where
  "entryStamp e = (case message e of None \<Rightarrow> 0 | Some m \<Rightarrow> msg_timestamp m)"

definition exampleOptions :: HandlerOptions where
  "exampleOptions =
     \<lparr>basePath = ''/webot'', staticDir = ''/srv/webot'',
      opt_gatewayUrl = ''ws://localhost:18789/'', opt_gatewayToken = ''t0ken''\<rparr>"

text \<open>A disk with no files: \<open>statSync\<close> and \<open>readFileSync\<close> throw for every path.\<close>

definition emptyDisk :: node_env where
  "emptyDisk =
     \<lparr>statSync = (\<lambda>p. None), readFileSync = (\<lambda>p. None),
      path_join = (\<lambda>a b. a @ ''/'' @ b), extname = (\<lambda>p. [])\<rparr>"

text \<open>A disk that holds the page of the application, \<open>index.html\<close> in the static
  directory, and nothing else.\<close>

definition pageDisk :: node_env where
  "pageDisk =
     \<lparr>statSync = (\<lambda>p. if p = ''/srv/webot/index.html'' then Some True else None),
      readFileSync = (\<lambda>p. if p = ''/srv/webot/index.html'' then Some ''<html></html>'' else None),
      path_join = (\<lambda>a b. a @ ''/'' @ b),
      extname = (\<lambda>p. if p = ''/srv/webot/index.html'' then ''.html'' else [])\<rparr>"

text \<open>A new service with every URL accepted, and a request frame.\<close>

definition exampleService :: session where
  "exampleService = newWebSocketService exampleConfig (Some ''s1'') (\<lambda>u. True)"

definition exampleRequest :: RequestFrame where
  "exampleRequest =
     \<lparr>req_id = ''r1'', req_method = ''chat.send'',
      req_params = Some (JObj [(''sessionKey'', JStr ''s1''), (''message'', JStr ''hi''),
                               (''idempotencyKey'', JStr ''k1'')])\<rparr>"

text \<open>A response to that request with \<open>ok: false\<close> and an error.\<close>

definition exampleFailure :: json where
  "exampleFailure =
     JObj [(''type'', JStr ''res''), (''id'', JStr ''r1''), (''ok'', JBool False),
           (''error'', JObj [(''code'', JNum 7), (''message'', JStr ''boom'')])]"

text \<open>A successful handshake response, and a successful response of another kind.\<close>

definition exampleHello :: ResponseFrame where
  "exampleHello =
     \<lparr>res_id = Some (JStr ''c1''), res_ok = True,
      res_payload = Some (JObj [(''type'', JStr ''hello-ok'')]), res_error = None\<rparr>"

definition exampleAck :: ResponseFrame where
  "exampleAck =
     \<lparr>res_id = Some (JStr ''r1''), res_ok = True,
      res_payload = Some (JObj [(''type'', JStr ''ack'')]), res_error = None\<rparr>"

text \<open>An event frame, a frame of a type that is not known, and two subscribers: one
  that throws on every call and one that never throws.\<close>

definition exampleEvent :: json where
  "exampleEvent = JObj [(''type'', JStr ''event''), (''event'', JStr ''tick''), (''seq'', JNum 1)]"

definition exampleUnknown :: json where
  "exampleUnknown = JObj [(''type'', JStr ''ping''), (''id'', JStr ''r1'')]"

definition throwingSubscriber :: "nat \<Rightarrow> 'a callback" where
  "throwingSubscriber n = Callback n (\<lambda>x. True)"

definition quietSubscriber :: "nat \<Rightarrow> 'a callback" where
  "quietSubscriber n = Callback n (\<lambda>x. False)"

text \<open>The new service with the two subscribers registered, the one that throws first.\<close>

definition exampleSubscribed :: session where
  "exampleSubscribed =
     run exampleService [CallOnEvent (throwingSubscriber 1), CallOnEvent (quietSubscriber 2)]"

text \<open>A chat event, and the new service with one generic subscriber and two chat
  subscribers, of which the first throws.\<close>

definition exampleChatEvent :: json where
  "exampleChatEvent =
     JObj [(''type'', JStr ''event''), (''event'', JStr ''chat''), (''seq'', JNum 2),
           (''payload'', JObj [(''sessionKey'', JStr ''s1''), (''runId'', JStr ''run1''),
                               (''state'', JStr ''delta'')])]"

definition exampleChatSubscribed :: session where
  "exampleChatSubscribed =
     run exampleService [CallOnEvent (quietSubscriber 1), CallOnChatEvent (throwingSubscriber 2),
                         CallOnChatEvent (quietSubscriber 3)]"

text \<open>An event whose \<open>seq\<close> is an object with a field \<open>toString\<close>: it does not
  convert to a string.\<close>

definition exampleBadSeq :: json where
  "exampleBadSeq =
     JObj [(''type'', JStr ''event''), (''event'', JStr ''tick''),
           (''seq'', JObj [(''toString'', JNum 1)])]"

text \<open>The service connected to an open socket, before the handshake.\<close>

definition exampleOpen :: session where
  "exampleOpen = run exampleService [CallConnect None, SocketOpen 0]"

text \<open>The same service after \<open>sendWithResponse\<close> of the example request, and after the
  socket has closed with code 1006.\<close>

definition exampleSent :: session where
  "exampleSent = run exampleService [CallConnect None, SocketOpen 0, CallSendWithResponse exampleRequest]"

definition exampleClosed :: session where
  "exampleClosed = run exampleService [CallConnect None, SocketOpen 0, SocketClose 0 1006 []]"

section \<open>The configuration service never rejects\<close>

lemma loadFromServer_try_fields:
  "loadFromServer_try this r = (this', res) \<Longrightarrow>
     (gatewayUrl this' \<noteq> gatewayUrl this \<longrightarrow>
        (\<exists>c t config. r = FetchResponse True c t (Some config) \<and> config \<noteq> JNull
           \<and> truthy (getProp config ''gatewayUrl'')
           \<and> getProp config ''gatewayUrl'' = Some (gatewayUrl this')))
   \<and> (gatewayToken this' \<noteq> gatewayToken this \<longrightarrow>
        (\<exists>c t config. r = FetchResponse True c t (Some config) \<and> config \<noteq> JNull
           \<and> truthy (getProp config ''gatewayToken'')
           \<and> getProp config ''gatewayToken'' = Some (gatewayToken this')))"
  by (auto simp: loadFromServer_try_def Let_def split: fetch_result.splits option.splits if_splits)

lemma loadFromServer_try_failed:
  "r = FetchRejected \<or> (\<exists>c t b. r = FetchResponse False c t b) \<or> (\<exists>c t. r = FetchResponse True c t None)
     \<or> (\<exists>c t. r = FetchResponse True c t (Some JNull))
   \<Longrightarrow> \<exists>e. loadFromServer_try this r = (this, Inl e)"
  by (auto simp: loadFromServer_try_def)

text \<open>
  C10. \<open>loadFromServer\<close> never rejects: for every outcome of the fetch it returns the
  configuration that the service holds afterwards. When the fetch rejects, the status is
  not OK, or the body does not parse or is \<open>null\<close>, that is the configuration held
  before, unchanged. A held field differs afterwards only when the response was OK and
  its body has that field with a truthy value, which is then the value held.
\<close>

theorem loadFromServer_never_rejects:
  "(\<exists>this'. loadFromServer this r = (this', Inr this'))
   \<and> (r = FetchRejected \<or> (\<exists>c t b. r = FetchResponse False c t b)
        \<or> (\<exists>c t. r = FetchResponse True c t None) \<or> (\<exists>c t. r = FetchResponse True c t (Some JNull))
      \<longrightarrow> loadFromServer this r = (this, Inr this))
   \<and> (gatewayUrl (fst (loadFromServer this r)) \<noteq> gatewayUrl this \<longrightarrow>
        (\<exists>c t config. r = FetchResponse True c t (Some config) \<and> config \<noteq> JNull
           \<and> truthy (getProp config ''gatewayUrl'')
           \<and> getProp config ''gatewayUrl'' = Some (gatewayUrl (fst (loadFromServer this r)))))
   \<and> (gatewayToken (fst (loadFromServer this r)) \<noteq> gatewayToken this \<longrightarrow>
        (\<exists>c t config. r = FetchResponse True c t (Some config) \<and> config \<noteq> JNull
           \<and> truthy (getProp config ''gatewayToken'')
           \<and> getProp config ''gatewayToken'' = Some (gatewayToken (fst (loadFromServer this r)))))"
proof -
  obtain this' res where t: "loadFromServer_try this r = (this', res)"
    by (cases "loadFromServer_try this r")
  have ret: "res = Inr c \<Longrightarrow> c = this'" for c
    using t by (auto simp: loadFromServer_try_def Let_def split: fetch_result.splits option.splits if_splits)
  have l: "loadFromServer this r = (this', Inr this')"
    using t ret by (cases res) (auto simp: loadFromServer_def)
  have f: "r = FetchRejected \<or> (\<exists>c t b. r = FetchResponse False c t b)
        \<or> (\<exists>c t. r = FetchResponse True c t None) \<or> (\<exists>c t. r = FetchResponse True c t (Some JNull))
       \<Longrightarrow> this' = this"
    using loadFromServer_try_failed [of r this] t by auto
  show ?thesis
    using l f loadFromServer_try_fields [OF t] by auto
qed

theorem loadFromServer_never_rejects_witness:
  "loadFromServer exampleConfig FetchRejected = (exampleConfig, Inr exampleConfig)
   \<and> gatewayUrl (fst (loadFromServer exampleConfig (FetchResponse True 200 ''OK'' (Some exampleServerConfig))))
       \<noteq> gatewayUrl exampleConfig
   \<and> truthy (getProp exampleServerConfig ''gatewayUrl'')
   \<and> gatewayToken (fst (loadFromServer exampleConfig (FetchResponse True 200 ''OK'' (Some exampleServerConfig))))
       = gatewayToken exampleConfig"
  using loadFromServer_never_rejects [of exampleConfig FetchRejected]
    loadFromServer_never_rejects [of exampleConfig "FetchResponse True 200 ''OK'' (Some exampleServerConfig)"]
  by (simp add: exampleConfig_def exampleServerConfig_def loadFromServer_def loadFromServer_try_def Let_def)

section \<open>History replay\<close>

lemma replay_append: "replay chatContainer ms = chatContainer @ map entryNode ms"
  by (induction ms arbitrary: chatContainer) (simp_all add: addMessage_def entryNode_def)

text \<open>
  C8. For a history response whose messages are listed newest first, \<open>loadHistory\<close>
  appends one node per message to the chat container, in the reverse of the wire order,
  which is oldest first. The order is that of any stamp on the entries.
\<close>

theorem loadHistory_chronological:
  fixes stamp :: "HistoryEntry \<Rightarrow> 'a::linorder"
  assumes "messages h = Some ms"
    and "sorted_wrt (\<lambda>a b. stamp a \<ge> stamp b) ms"
  shows "loadHistory chatContainer (Some h) = chatContainer @ map entryNode (rev ms)
         \<and> sorted_wrt (\<lambda>a b. stamp a \<le> stamp b) (rev ms)"
  using assms by (simp add: loadHistory_def replay_append sorted_wrt_rev)

theorem loadHistory_chronological_witness:
  "messages exampleHistory = Some [exampleEntry ''assistant'' ''second'' 2, exampleEntry ''user'' ''first'' 1]
   \<and> sorted_wrt (\<lambda>a b. entryStamp a \<ge> entryStamp b)
        [exampleEntry ''assistant'' ''second'' 2, exampleEntry ''user'' ''first'' 1]
   \<and> loadHistory [] (Some exampleHistory) =
        [MessageDiv ''message user'' ''You'' ''first'',
         MessageDiv ''message assistant'' ''Assistant'' ''second'']"
proof -
  have m: "messages exampleHistory = Some [exampleEntry ''assistant'' ''second'' 2, exampleEntry ''user'' ''first'' 1]"
    by (simp add: exampleHistory_def)
  have s: "sorted_wrt (\<lambda>a b. entryStamp a \<ge> entryStamp b)
        [exampleEntry ''assistant'' ''second'' 2, exampleEntry ''user'' ''first'' 1]"
    by (simp add: exampleEntry_def entryStamp_def)
  show ?thesis
    using m s loadHistory_chronological [OF m s, of "[]"]
    by (simp add: entryNode_def entryRole_def entryContent_def exampleEntry_def)
qed

section \<open>The HTTP handlers and the base path\<close>

text \<open>
  A request whose pathname does not start with the base path, as a string, is answered
  \<open>false\<close> with nothing written, by both handlers. A request for the base path followed
  by \<open>/api/config\<close> is answered \<open>true\<close>, after a 200 response with a JSON document of
  the two fields \<open>gatewayUrl\<close> and \<open>gatewayToken\<close>.
\<close>

lemma handler_prefix_guard:
  "(\<not> prefix (basePath opts) pathname \<longrightarrow>
      createWebotHttpHandler opts env (Some pathname) res = (res, Inr False)
      \<and> createWebotIntegrationHandler opts env (Some pathname) res = (res, Inr False))
   \<and> createWebotHttpHandler opts env (Some (basePath opts @ ''/api/config'')) res =
       (res @ [WriteHead 200 [(''Content-Type'', ''application/json'')],
               End (JsonDoc (JObj [(''gatewayUrl'', JStr (opt_gatewayUrl opts)),
                                   (''gatewayToken'', JStr (opt_gatewayToken opts))]))], Inr True)
   \<and> createWebotIntegrationHandler opts env (Some (basePath opts @ ''/api/config'')) res =
       (res @ [WriteHead 200 [(''Content-Type'', ''application/json'')],
               End (JsonDoc (JObj [(''gatewayUrl'', JStr (opt_gatewayUrl opts)),
                                   (''gatewayToken'', JStr (opt_gatewayToken opts))]))], Inr True)"
  by (simp add: createWebotHttpHandler_def createWebotIntegrationHandler_def relativePath_def
      configDocument_def)

lemma handler_prefix_guard_example:
  "\<not> prefix (basePath exampleOptions) ''/control-ui''
   \<and> createWebotHttpHandler exampleOptions emptyDisk (Some ''/control-ui'') [] = ([], Inr False)
   \<and> createWebotIntegrationHandler exampleOptions emptyDisk (Some ''/control-ui'') [] = ([], Inr False)"
proof -
  have h: "\<not> prefix (basePath exampleOptions) ''/control-ui''"
    by (simp add: exampleOptions_def)
  show ?thesis
    using h handler_prefix_guard [of exampleOptions "''/control-ui''" emptyDisk "[]"] by blast
qed

text \<open>
  Every pathname that starts with the base path, as a string, is taken by both handlers
  as their own: they answer \<open>true\<close>, whatever comes after the base path, and have
  written a response.
\<close>

lemma serveStaticFile_writes: "serveStaticFile env f res = (res1, True) \<Longrightarrow> res1 \<noteq> res"
  by (auto simp: serveStaticFile_def notFound_def Let_def split: option.splits if_splits)

lemma serveStaticFile_keeps: "serveStaticFile env f res = (res1, False) \<Longrightarrow> res1 = res"
  by (auto simp: serveStaticFile_def notFound_def Let_def split: option.splits if_splits)

lemma handler_prefix_handled:
  assumes "prefix (basePath opts) pathname"
  shows "snd (createWebotHttpHandler opts env (Some pathname) res) = Inr True
     \<and> fst (createWebotHttpHandler opts env (Some pathname) res) \<noteq> res
     \<and> snd (createWebotIntegrationHandler opts env (Some pathname) res) = Inr True
     \<and> fst (createWebotIntegrationHandler opts env (Some pathname) res) \<noteq> res"
proof -
  let ?f = "filePathFor opts env (relativePath opts pathname)"
  let ?i = "path_join env (staticDir opts) ''index.html''"
  obtain r1 b1 where a: "serveStaticFile env ?f res = (r1, b1)"
    by (cases "serveStaticFile env ?f res")
  obtain r2 b2 where b: "serveStaticFile env ?i r1 = (r2, b2)"
    by (cases "serveStaticFile env ?i r1")
  have k1: "\<not> b1 \<Longrightarrow> r1 = res" using a serveStaticFile_keeps [of env ?f res r1] by simp
  have w1: "b1 \<Longrightarrow> r1 \<noteq> res" using a serveStaticFile_writes [of env ?f res r1] by simp
  have k2: "\<not> b2 \<Longrightarrow> r2 = r1" using b serveStaticFile_keeps [of env ?i r1 r2] by simp
  have w2: "b2 \<Longrightarrow> r2 \<noteq> r1" using b serveStaticFile_writes [of env ?i r1 r2] by simp
  show ?thesis
    using assms a b k1 w1 k2 w2
    by (cases b1; cases b2)
       (auto simp: createWebotHttpHandler_def createWebotIntegrationHandler_def Let_def
          configDocument_def notFound_def)
qed

text \<open>
  C9 fails on the code. The pathname \<open>/webotx\<close> does not lie under the base path
  \<open>/webot\<close>: it is the path of a sibling. Yet it starts with the base path as a string,
  and both handlers answer \<open>true\<close> after writing a response: 404 on a disk with no
  files, and the page of the application, with 200, on a disk that holds
  \<open>index.html\<close>. The code after the test reads what follows the base path as a path
  that begins with \<open>/\<close>; for \<open>/webotx\<close> it is \<open>x\<close>.
\<close>

theorem handler_answers_sibling_path:
  "\<not> spec_liesUnder (basePath exampleOptions) ''/webotx''
   \<and> relativePath exampleOptions ''/webotx'' = ''x''
   \<and> createWebotIntegrationHandler exampleOptions emptyDisk (Some ''/webotx'') [] =
       ([WriteHead 404 [(''Content-Type'', ''text/plain'')], End (Text ''Not Found'')], Inr True)
   \<and> createWebotHttpHandler exampleOptions emptyDisk (Some ''/webotx'') [] =
       ([WriteHead 404 [(''Content-Type'', ''text/plain'')], End (Text ''Not Found'')], Inr True)
   \<and> createWebotIntegrationHandler exampleOptions pageDisk (Some ''/webotx'') [] =
       ([WriteHead 200 [(''Content-Type'', ''text/html''), (''Cache-Control'', ''no-cache'')],
         End (Text ''<html></html>'')], Inr True)
   \<and> createWebotHttpHandler exampleOptions pageDisk (Some ''/webotx'') [] =
       ([WriteHead 200 [(''Content-Type'', ''text/html''), (''Cache-Control'', ''no-cache'')],
         End (Text ''<html></html>'')], Inr True)"
  by (simp add: spec_liesUnder_def exampleOptions_def emptyDisk_def pageDisk_def
      createWebotIntegrationHandler_def createWebotHttpHandler_def relativePath_def filePathFor_def
      serveStaticFile_def notFound_def mimeTypes_def Let_def)

section \<open>Values that convert to a string\<close>

text \<open>A falsy value is \<open>undefined\<close>, \<open>null\<close>, \<open>false\<close>, \<open>0\<close> or the empty string, and each of
  them converts without a throw.\<close>

lemma falsy_converts: "\<not> truthy v \<Longrightarrow> \<not> templateThrows v"
proof (cases v)
  case None
  then show ?thesis by (simp add: templateThrows_def)
next
  case (Some x)
  assume "\<not> truthy v"
  with Some show ?thesis by (cases x) (simp_all add: templateThrows_def)
qed

lemma string_converts [simp]: "\<not> templateThrows (Some (JStr x))"
  by (simp add: templateThrows_def)

section \<open>The gateway session: what each operation leaves alone\<close>

lemma settle_fields [simp]:
  "ws (settle p v s) = ws s"
  "connected (settle p v s) = connected s"
  "connectionState (settle p v s) = connectionState s"
  "pendingRequests (settle p v s) = pendingRequests s"
  "sockets (settle p v s) = sockets s"
  "timers (settle p v s) = timers s"
  "timerCount (settle p v s) = timerCount s"
  "calls (settle p v s) = calls s"
  "length (promises (settle p v s)) = length (promises s)"
  by (simp_all add: settle_def)

lemma clearTimeout_fields [simp]:
  "ws (clearTimeout t s) = ws s"
  "connected (clearTimeout t s) = connected s"
  "connectionState (clearTimeout t s) = connectionState s"
  "pendingRequests (clearTimeout t s) = pendingRequests s"
  "sockets (clearTimeout t s) = sockets s"
  "promises (clearTimeout t s) = promises s"
  "timerCount (clearTimeout t s) = timerCount s"
  "calls (clearTimeout t s) = calls s"
  by (simp_all add: clearTimeout_def)

lemma setTimeout_fields [simp]:
  "ws (setTimeout a d s) = ws s"
  "connected (setTimeout a d s) = connected s"
  "connectionState (setTimeout a d s) = connectionState s"
  "pendingRequests (setTimeout a d s) = pendingRequests s"
  "sockets (setTimeout a d s) = sockets s"
  "promises (setTimeout a d s) = promises s"
  "timers (setTimeout a d s) = timers s @ [(timerCount s, d, a)]"
  "timerCount (setTimeout a d s) = Suc (timerCount s)"
  "calls (setTimeout a d s) = calls s"
  by (simp_all add: setTimeout_def)

lemma updateSocket_fields [simp]:
  "ws (updateSocket k f s) = ws s"
  "connected (updateSocket k f s) = connected s"
  "connectionState (updateSocket k f s) = connectionState s"
  "pendingRequests (updateSocket k f s) = pendingRequests s"
  "promises (updateSocket k f s) = promises s"
  "timers (updateSocket k f s) = timers s"
  "timerCount (updateSocket k f s) = timerCount s"
  "calls (updateSocket k f s) = calls s"
  "length (sockets (updateSocket k f s)) = length (sockets s)"
  by (simp_all add: updateSocket_def)

lemma updateStatus_fields [simp]:
  "ws (updateStatus st e s) = ws s"
  "connected (updateStatus st e s) = connected s"
  "pendingRequests (updateStatus st e s) = pendingRequests s"
  "sockets (updateStatus st e s) = sockets s"
  "promises (updateStatus st e s) = promises s"
  "timers (updateStatus st e s) = timers s"
  "timerCount (updateStatus st e s) = timerCount s"
  "calls (updateStatus st e s) = calls s"
  "status (connectionState (updateStatus st e s)) = st"
  by (simp_all add: updateStatus_def Let_def split: option.splits)

lemma newPromise_fields [simp]:
  "ws (newPromise s) = ws s"
  "connected (newPromise s) = connected s"
  "connectionState (newPromise s) = connectionState s"
  "pendingRequests (newPromise s) = pendingRequests s"
  "sockets (newPromise s) = sockets s"
  "timers (newPromise s) = timers s"
  "timerCount (newPromise s) = timerCount s"
  "calls (newPromise s) = calls s"
  "promises (newPromise s) = promises s @ [Pending]"
  by (simp_all add: newPromise_def)

lemma rejectAll_Nil_pending [simp]: "pendingRequests s = [] \<Longrightarrow> rejectAll (pendingRequests s) s = s"
  by simp

lemma removeFromCurrent_fields [simp]:
  "ws (removeFromCurrent h s) = ws s"
  "connected (removeFromCurrent h s) = connected s"
  "connectionState (removeFromCurrent h s) = connectionState s"
  "pendingRequests (removeFromCurrent h s) = pendingRequests s"
  "promises (removeFromCurrent h s) = promises s"
  "timers (removeFromCurrent h s) = timers s"
  "timerCount (removeFromCurrent h s) = timerCount s"
  "calls (removeFromCurrent h s) = calls s"
  "length (sockets (removeFromCurrent h s)) = length (sockets s)"
  by (simp_all add: removeFromCurrent_def removeEventListener_def split: option.splits)

lemma runListener_fields [simp]:
  "ws (runListener h parsed s) = ws s"
  "connected (runListener h parsed s) = connected s"
  "connectionState (runListener h parsed s) = connectionState s"
  "pendingRequests (runListener h parsed s) = pendingRequests s"
  "timers (runListener h parsed s) = timers s"
  "timerCount (runListener h parsed s) = timerCount s"
  "calls (runListener h parsed s) = calls s"
  by (cases h; simp add: resolve_def split: option.splits)+

lemma fold_runListener_fields [simp]:
  "ws (fold (\<lambda>h. runListener h parsed) hs s) = ws s"
  "connected (fold (\<lambda>h. runListener h parsed) hs s) = connected s"
  "connectionState (fold (\<lambda>h. runListener h parsed) hs s) = connectionState s"
  "pendingRequests (fold (\<lambda>h. runListener h parsed) hs s) = pendingRequests s"
  "timers (fold (\<lambda>h. runListener h parsed) hs s) = timers s"
  "timerCount (fold (\<lambda>h. runListener h parsed) hs s) = timerCount s"
  "calls (fold (\<lambda>h. runListener h parsed) hs s) = calls s"
  by (induction hs arbitrary: s; simp)+

lemma send_fields [simp]:
  "ws (send frame s) = ws s"
  "connected (send frame s) = connected s"
  "connectionState (send frame s) = connectionState s"
  "pendingRequests (send frame s) = pendingRequests s"
  "promises (send frame s) = promises s"
  "timers (send frame s) = timers s"
  "timerCount (send frame s) = timerCount s"
  "calls (send frame s) = calls s"
  by (simp_all add: send_def socketSend_def split: option.splits)

lemma sendConnect_fields [simp]:
  "ws (sendConnect s) = ws s"
  "connected (sendConnect s) = connected s"
  "connectionState (sendConnect s) = connectionState s"
  "pendingRequests (sendConnect s) = pendingRequests s"
  "promises (sendConnect s) = promises s"
  "timers (sendConnect s) = timers s"
  "timerCount (sendConnect s) = timerCount s"
  "calls (sendConnect s) = calls s"
  by (simp_all add: sendConnect_def)

section \<open>Recognising the handshake\<close>

lemma isHelloOk_iff:
  "isHelloOk payload = (\<exists>fs. payload = Some (JObj fs) \<and> map_of fs ''type'' = Some (JStr ''hello-ok''))"
proof (cases payload)
  case None
  then show ?thesis by (simp add: isHelloOk_def)
next
  case (Some v)
  then show ?thesis by (cases v) (simp_all add: isHelloOk_def)
qed

lemma resolvePending_empty [simp]: "pendingRequests s = [] \<Longrightarrow> resolvePending r s = (s, None)"
  by (simp add: resolvePending_def pendingGet_def split: option.splits json.splits)

lemma resolvePending_connected [simp]:
  "connected (fst (resolvePending r s)) = connected s"
  "connectionState (fst (resolvePending r s)) = connectionState s"
  by (simp_all add: resolvePending_def Let_def resolve_def reject_def split: option.splits)

lemma resolvePending_throws_not_ok: "resolvePending r s = (s1, Some e) \<Longrightarrow> \<not> res_ok r"
  by (auto simp: resolvePending_def Let_def split: option.splits if_splits)

lemma handleResponse_connected:
  "connected (fst (handleResponse r s)) = (connected s \<or> (res_ok r \<and> isHelloOk (res_payload r)))"
proof (cases "resolvePending r s")
  case (Pair s1 x)
  have c: "connected s1 = connected s"
    using resolvePending_connected(1) [of r s] Pair by simp
  show ?thesis
  proof (cases x)
    case None
    then show ?thesis
      using Pair c by (auto simp: handleResponse_def Let_def split: prod.splits)
  next
    case (Some e)
    then show ?thesis
      using Pair c resolvePending_throws_not_ok [of r s s1 e] by (simp add: handleResponse_def)
  qed
qed

lemma handleResponse_status:
  "(status (connectionState (fst (handleResponse r s))) = Connected) =
     (status (connectionState s) = Connected \<or> (res_ok r \<and> isHelloOk (res_payload r)))"
proof (cases "resolvePending r s")
  case (Pair s1 x)
  have c: "connectionState s1 = connectionState s"
    using resolvePending_connected(2) [of r s] Pair by simp
  show ?thesis
  proof (cases x)
    case None
    then show ?thesis
      using Pair c by (auto simp: handleResponse_def Let_def split: prod.splits)
  next
    case (Some e)
    then show ?thesis
      using Pair c resolvePending_throws_not_ok [of r s s1 e] by (simp add: handleResponse_def)
  qed
qed

text \<open>
  C1. After \<open>handleResponse\<close> the service is connected (the \<open>connected\<close> flag, and
  the status \<open>connected\<close>) exactly when it was connected before, or the frame has
  \<open>ok\<close> true and a payload that is an object whose \<open>type\<close> is \<open>"hello-ok"\<close>. So a
  response enters the connected state only with \<open>ok\<close> and that payload, and a response
  with \<open>ok\<close> true and any other payload leaves a service that is not connected as it is.
\<close>

theorem handleResponse_hello_ok:
  "connected (fst (handleResponse r s)) =
     (connected s \<or> (res_ok r \<and> (\<exists>fs. res_payload r = Some (JObj fs) \<and> map_of fs ''type'' = Some (JStr ''hello-ok''))))
   \<and> (status (connectionState (fst (handleResponse r s))) = Connected) =
     (status (connectionState s) = Connected
      \<or> (res_ok r \<and> (\<exists>fs. res_payload r = Some (JObj fs) \<and> map_of fs ''type'' = Some (JStr ''hello-ok''))))"
  unfolding isHelloOk_iff [symmetric]
  by (simp add: handleResponse_connected handleResponse_status)

theorem handleResponse_hello_ok_witness:
  "\<not> connected exampleService
   \<and> connected (fst (handleResponse exampleHello exampleService))
   \<and> status (connectionState (fst (handleResponse exampleHello exampleService))) = Connected
   \<and> \<not> connected (fst (handleResponse exampleAck exampleService))
   \<and> status (connectionState (fst (handleResponse exampleAck exampleService))) = Disconnected"
  using handleResponse_hello_ok [of exampleHello exampleService]
    handleResponse_hello_ok [of exampleAck exampleService]
  by (simp add: exampleHello_def exampleAck_def exampleService_def newWebSocketService_def
      handleResponse_def resolvePending_def pendingGet_def isHelloOk_def)

section \<open>Frames of an unknown type\<close>

lemma runListener_other_type:
  "getProp data ''type'' \<noteq> Some (JStr ''res'') \<Longrightarrow> runListener h (Some data) s = s"
  by (cases h) simp

lemma fold_runListener_other_type:
  "getProp data ''type'' \<noteq> Some (JStr ''res'') \<Longrightarrow> fold (\<lambda>h. runListener h (Some data)) hs s = s"
  by (induction hs) (simp_all add: runListener_other_type)

text \<open>
  C6. A parsed message whose \<open>type\<close> is neither \<open>"res"\<close> nor \<open>"event"\<close> (it is
  missing, or any other value, or the message is not an object at all) changes nothing:
  \<open>handleMessage\<close>, and the whole \<open>message\<close> event with the listeners of the socket,
  return the service as it was, and nothing is thrown out of them.
\<close>

theorem unrecognized_frame_dropped:
  assumes "getProp data ''type'' \<noteq> Some (JStr ''res'')"
    and "getProp data ''type'' \<noteq> Some (JStr ''event'')"
  shows "handleMessage (Some data) s = (s, None) \<and> onmessage k (Some data) s = (s, None)"
  using assms
  by (simp add: handleMessage_def handleMessage_try_def onmessage_def fold_runListener_other_type)

theorem unrecognized_frame_dropped_witness:
  "getProp exampleUnknown ''type'' \<noteq> Some (JStr ''res'')
   \<and> getProp exampleUnknown ''type'' \<noteq> Some (JStr ''event'')
   \<and> handleMessage (Some exampleUnknown) exampleService = (exampleService, None)
   \<and> onmessage 0 (Some exampleUnknown) exampleService = (exampleService, None)"
proof -
  have a: "getProp exampleUnknown ''type'' \<noteq> Some (JStr ''res'')"
    by (simp add: exampleUnknown_def)
  have b: "getProp exampleUnknown ''type'' \<noteq> Some (JStr ''event'')"
    by (simp add: exampleUnknown_def)
  show ?thesis
    using a b unrecognized_frame_dropped [OF a b, of exampleService 0] by simp
qed

section \<open>Dispatch to subscribers\<close>

lemma forEachCallback_all_quiet:
  "\<forall>cb \<in> set cbs. \<not> cb_throws cb x \<Longrightarrow> forEachCallback cbs x = (map cb_name cbs, None)"
proof (induction cbs)
  case Nil
  then show ?case by simp
next
  case (Cons cb cbs)
  then show ?case by (cases cb) simp
qed

lemma forEachCallback_first_throw:
  "\<forall>c \<in> set pre. \<not> cb_throws c x \<Longrightarrow> cb_throws cb x \<Longrightarrow>
   forEachCallback (pre @ cb # post) x = (map cb_name pre @ [cb_name cb], Some (CallbackThrew (cb_name cb)))"
proof (induction pre)
  case Nil
  then show ?case by (cases cb) simp
next
  case (Cons c pre)
  then show ?case by (cases c) simp
qed

text \<open>
  C7, as the code has it. \<open>handleEvent\<close> first builds its log line, and when \<open>seq\<close>
  does not convert to a string it throws before any subscriber is called. Otherwise it
  calls the generic subscribers in the order they were registered. When one of them
  throws, the dispatch ends there: the subscribers after it, and the chat subscribers,
  are not called, and what was thrown leaves \<open>handleEvent\<close>. When no generic subscriber
  throws, all of them are called; for a \<open>chat\<close> event the log line of
  \<open>handleChatEvent\<close> comes next, which throws on a payload it cannot read or convert,
  and then the chat subscribers in their order, up to the first that throws: the chat
  subscribers after that one are not called either. \<open>handleMessage\<close> catches whatever
  was thrown and returns with the state as \<open>handleEvent\<close> left it.
\<close>

theorem dispatch_stops_at_throw:
  "(templateThrows (ev_seq e) \<longrightarrow> handleEvent e s = (s, Some TypeError))
   \<and> (\<not> templateThrows (ev_seq e) \<and> eventCallbacks s = pre @ cb # post
       \<and> (\<forall>c \<in> set pre. \<not> cb_throws c e) \<and> cb_throws cb e \<longrightarrow>
      handleEvent e s = (s\<lparr>calls := calls s @ map EventCall (map cb_name pre @ [cb_name cb])\<rparr>,
                         Some (CallbackThrew (cb_name cb))))
   \<and> (\<not> templateThrows (ev_seq e) \<and> (\<forall>c \<in> set (eventCallbacks s). \<not> cb_throws c e)
       \<and> ev_event e \<noteq> Some (JStr ''chat'') \<longrightarrow>
      handleEvent e s = (s\<lparr>calls := calls s @ map EventCall (map cb_name (eventCallbacks s))\<rparr>, None))
   \<and> (\<not> templateThrows (ev_seq e) \<and> (\<forall>c \<in> set (eventCallbacks s). \<not> cb_throws c e)
       \<and> ev_event e = Some (JStr ''chat'') \<and> chatLogThrows (ev_payload e) \<longrightarrow>
      handleEvent e s = (s\<lparr>calls := calls s @ map EventCall (map cb_name (eventCallbacks s))\<rparr>,
                         Some TypeError))
   \<and> (\<not> templateThrows (ev_seq e) \<and> (\<forall>c \<in> set (eventCallbacks s). \<not> cb_throws c e)
       \<and> ev_event e = Some (JStr ''chat'') \<and> \<not> chatLogThrows (ev_payload e)
       \<and> chatEventCallbacks s = cpre @ ccb # cpost
       \<and> (\<forall>c \<in> set cpre. \<not> cb_throws c (ev_payload e)) \<and> cb_throws ccb (ev_payload e) \<longrightarrow>
      handleEvent e s =
        (s\<lparr>calls := calls s @ map EventCall (map cb_name (eventCallbacks s))
                     @ map ChatEventCall (map cb_name cpre @ [cb_name ccb])\<rparr>,
         Some (CallbackThrew (cb_name ccb))))
   \<and> (\<not> templateThrows (ev_seq e) \<and> (\<forall>c \<in> set (eventCallbacks s). \<not> cb_throws c e)
       \<and> ev_event e = Some (JStr ''chat'') \<and> \<not> chatLogThrows (ev_payload e)
       \<and> (\<forall>c \<in> set (chatEventCallbacks s). \<not> cb_throws c (ev_payload e)) \<longrightarrow>
      handleEvent e s =
        (s\<lparr>calls := calls s @ map EventCall (map cb_name (eventCallbacks s))
                     @ map ChatEventCall (map cb_name (chatEventCallbacks s))\<rparr>, None))
   \<and> (getProp data ''type'' = Some (JStr ''event'')
       \<and> getProp data ''event'' \<noteq> Some (JStr ''connect.challenge'')
       \<and> \<not> templateThrows (getProp data ''event'') \<and> \<not> templateThrows (getProp data ''id'') \<longrightarrow>
      handleMessage (Some data) s = (fst (handleEvent (asEventFrame data) s), None))"
proof -
  have a: "templateThrows (ev_seq e) \<Longrightarrow> handleEvent e s = (s, Some TypeError)"
    by (simp add: handleEvent_def)
  have b: "\<not> templateThrows (ev_seq e) \<Longrightarrow> eventCallbacks s = pre @ cb # post
      \<Longrightarrow> \<forall>c \<in> set pre. \<not> cb_throws c e \<Longrightarrow> cb_throws cb e \<Longrightarrow>
      handleEvent e s = (s\<lparr>calls := calls s @ map EventCall (map cb_name pre @ [cb_name cb])\<rparr>,
                         Some (CallbackThrew (cb_name cb)))"
    by (simp add: handleEvent_def forEachCallback_first_throw Let_def)
  have c: "\<not> templateThrows (ev_seq e) \<Longrightarrow> \<forall>c \<in> set (eventCallbacks s). \<not> cb_throws c e
      \<Longrightarrow> ev_event e \<noteq> Some (JStr ''chat'') \<Longrightarrow>
      handleEvent e s = (s\<lparr>calls := calls s @ map EventCall (map cb_name (eventCallbacks s))\<rparr>, None)"
    by (simp add: handleEvent_def forEachCallback_all_quiet Let_def)
  have d: "\<not> templateThrows (ev_seq e) \<Longrightarrow> \<forall>c \<in> set (eventCallbacks s). \<not> cb_throws c e
      \<Longrightarrow> ev_event e = Some (JStr ''chat'') \<Longrightarrow> chatLogThrows (ev_payload e) \<Longrightarrow>
      handleEvent e s = (s\<lparr>calls := calls s @ map EventCall (map cb_name (eventCallbacks s))\<rparr>,
                         Some TypeError)"
    by (simp add: handleEvent_def handleChatEvent_def forEachCallback_all_quiet Let_def)
  have f: "\<not> templateThrows (ev_seq e) \<Longrightarrow> \<forall>c \<in> set (eventCallbacks s). \<not> cb_throws c e
      \<Longrightarrow> ev_event e = Some (JStr ''chat'') \<Longrightarrow> \<not> chatLogThrows (ev_payload e)
      \<Longrightarrow> chatEventCallbacks s = cpre @ ccb # cpost
      \<Longrightarrow> \<forall>c \<in> set cpre. \<not> cb_throws c (ev_payload e) \<Longrightarrow> cb_throws ccb (ev_payload e) \<Longrightarrow>
      handleEvent e s =
        (s\<lparr>calls := calls s @ map EventCall (map cb_name (eventCallbacks s))
                     @ map ChatEventCall (map cb_name cpre @ [cb_name ccb])\<rparr>,
         Some (CallbackThrew (cb_name ccb)))"
    by (simp add: handleEvent_def handleChatEvent_def forEachCallback_all_quiet
        forEachCallback_first_throw Let_def)
  have g: "\<not> templateThrows (ev_seq e) \<Longrightarrow> \<forall>c \<in> set (eventCallbacks s). \<not> cb_throws c e
      \<Longrightarrow> ev_event e = Some (JStr ''chat'') \<Longrightarrow> \<not> chatLogThrows (ev_payload e)
      \<Longrightarrow> \<forall>c \<in> set (chatEventCallbacks s). \<not> cb_throws c (ev_payload e) \<Longrightarrow>
      handleEvent e s =
        (s\<lparr>calls := calls s @ map EventCall (map cb_name (eventCallbacks s))
                     @ map ChatEventCall (map cb_name (chatEventCallbacks s))\<rparr>, None)"
    by (simp add: handleEvent_def handleChatEvent_def forEachCallback_all_quiet Let_def)
  have h: "getProp data ''type'' = Some (JStr ''event'')
      \<Longrightarrow> getProp data ''event'' \<noteq> Some (JStr ''connect.challenge'')
      \<Longrightarrow> \<not> templateThrows (getProp data ''event'') \<Longrightarrow> \<not> templateThrows (getProp data ''id'') \<Longrightarrow>
      handleMessage (Some data) s = (fst (handleEvent (asEventFrame data) s), None)"
    by (auto simp: handleMessage_def handleMessage_try_def split: prod.splits option.splits)
  show ?thesis
    using a b c d f g h by blast
qed

lemmas session_ops = run_def exampleService_def newWebSocketService_def exampleConfig_def
  exampleRequest_def connect_def disconnect_def reconnect_def updateStatus_def newPromise_def
  settle_def resolve_def reject_def setTimeout_def clearTimeout_def updateSocket_def
  addEventListener_def removeEventListener_def removeFromCurrent_def wsOpen_def socketSend_def
  socketClose_def send_def sendWithResponse_def onopen_def onclose_def onerror_def onmessage_def
  fireTimer_def handleMessage_def handleMessage_try_def handleResponse_def handleEvent_def
  handleChatEvent_def sendConnect_def promiseState_def asResponseFrame_def asEventFrame_def
  pendingGet_def pendingDelete_def isHelloOk_def requestError_def decimal.simps Let_def
  resolvePending_def requestErrorThrows_def templateThrows_def chatLogThrows_def

theorem dispatch_stops_at_throw_witness:
  "eventCallbacks exampleSubscribed = [] @ throwingSubscriber 1 # [quietSubscriber 2]
   \<and> cb_throws (throwingSubscriber 1) (asEventFrame exampleEvent)
   \<and> handleEvent (asEventFrame exampleEvent) exampleSubscribed =
       (exampleSubscribed\<lparr>calls := [EventCall 1]\<rparr>, Some (CallbackThrew 1))
   \<and> chatEventCallbacks exampleChatSubscribed = [] @ throwingSubscriber 2 # [quietSubscriber 3]
   \<and> \<not> chatLogThrows (ev_payload (asEventFrame exampleChatEvent))
   \<and> cb_throws (throwingSubscriber 2) (ev_payload (asEventFrame exampleChatEvent))
   \<and> handleEvent (asEventFrame exampleChatEvent) exampleChatSubscribed =
       (exampleChatSubscribed\<lparr>calls := [EventCall 1, ChatEventCall 2]\<rparr>, Some (CallbackThrew 2))
   \<and> templateThrows (ev_seq (asEventFrame exampleBadSeq))
   \<and> handleEvent (asEventFrame exampleBadSeq) exampleSubscribed = (exampleSubscribed, Some TypeError)"
proof -
  have a: "eventCallbacks exampleSubscribed = [] @ throwingSubscriber 1 # [quietSubscriber 2]"
    by (simp add: exampleSubscribed_def session_ops)
  have b: "cb_throws (throwingSubscriber 1) (asEventFrame exampleEvent)"
    by (simp add: throwingSubscriber_def)
  have c: "calls exampleSubscribed = []"
    by (simp add: exampleSubscribed_def session_ops)
  have n: "\<not> templateThrows (ev_seq (asEventFrame exampleEvent))"
    by (simp add: exampleEvent_def asEventFrame_def templateThrows_def)
  have r1: "handleEvent (asEventFrame exampleEvent) exampleSubscribed =
       (exampleSubscribed\<lparr>calls := [EventCall 1]\<rparr>, Some (CallbackThrew 1))"
    using a b c n
      dispatch_stops_at_throw [where s = exampleSubscribed and pre = "[]"
        and cb = "throwingSubscriber 1" and post = "[quietSubscriber 2]"
        and e = "asEventFrame exampleEvent" and cpre = "[]" and ccb = "throwingSubscriber 2"
        and cpost = "[]" and data = exampleEvent]
    by (simp add: throwingSubscriber_def)
  have a2: "chatEventCallbacks exampleChatSubscribed = [] @ throwingSubscriber 2 # [quietSubscriber 3]"
    by (simp add: exampleChatSubscribed_def session_ops)
  have g2: "eventCallbacks exampleChatSubscribed = [quietSubscriber 1]"
    by (simp add: exampleChatSubscribed_def session_ops)
  have c2: "calls exampleChatSubscribed = []"
    by (simp add: exampleChatSubscribed_def session_ops)
  have l2: "\<not> chatLogThrows (ev_payload (asEventFrame exampleChatEvent))"
    by (simp add: exampleChatEvent_def asEventFrame_def chatLogThrows_def templateThrows_def)
  have b2: "cb_throws (throwingSubscriber 2) (ev_payload (asEventFrame exampleChatEvent))"
    by (simp add: throwingSubscriber_def)
  have n2: "\<not> templateThrows (ev_seq (asEventFrame exampleChatEvent))"
    by (simp add: exampleChatEvent_def asEventFrame_def templateThrows_def)
  have e2: "ev_event (asEventFrame exampleChatEvent) = Some (JStr ''chat'')"
    by (simp add: exampleChatEvent_def asEventFrame_def)
  have r2: "handleEvent (asEventFrame exampleChatEvent) exampleChatSubscribed =
       (exampleChatSubscribed\<lparr>calls := [EventCall 1, ChatEventCall 2]\<rparr>, Some (CallbackThrew 2))"
    using a2 g2 c2 l2 b2 n2 e2
      dispatch_stops_at_throw [where s = exampleChatSubscribed and pre = "[]"
        and cb = "throwingSubscriber 1" and post = "[]"
        and e = "asEventFrame exampleChatEvent" and cpre = "[]" and ccb = "throwingSubscriber 2"
        and cpost = "[quietSubscriber 3]" and data = exampleChatEvent]
    by (simp add: throwingSubscriber_def quietSubscriber_def)
  have n3: "templateThrows (ev_seq (asEventFrame exampleBadSeq))"
    by (simp add: exampleBadSeq_def asEventFrame_def templateThrows_def)
  have r3: "handleEvent (asEventFrame exampleBadSeq) exampleSubscribed = (exampleSubscribed, Some TypeError)"
    using n3
      dispatch_stops_at_throw [where s = exampleSubscribed and pre = "[]"
        and cb = "throwingSubscriber 1" and post = "[quietSubscriber 2]"
        and e = "asEventFrame exampleBadSeq" and cpre = "[]" and ccb = "throwingSubscriber 2"
        and cpost = "[]" and data = exampleBadSeq]
    by blast
  show ?thesis
    using a b r1 a2 l2 b2 r2 n3 r3 by blast
qed

text \<open>
  C7, as the claim words it, fails: with a subscriber that throws registered before one
  that does not, an event that arrives on the open socket is given to the first only, and
  so it is with two chat subscribers and a chat event.
\<close>

theorem dispatch_stops_at_throw_counterexample:
  "calls (run exampleService
      [CallConnect None, SocketOpen 0, CallOnEvent (throwingSubscriber 1), CallOnEvent (quietSubscriber 2),
       SocketMessage 0 (Some exampleEvent)]) = [EventCall 1]
   \<and> calls (run exampleService
      [CallConnect None, SocketOpen 0, CallOnChatEvent (throwingSubscriber 1),
       CallOnChatEvent (quietSubscriber 2), SocketMessage 0 (Some exampleChatEvent)]) = [ChatEventCall 1]"
  by (simp add: session_ops exampleEvent_def exampleChatEvent_def throwingSubscriber_def
      quietSubscriber_def)

section \<open>The states of a run are well formed\<close>

lemma socketWf_mono: "socketWf n so \<Longrightarrow> n \<le> m \<Longrightarrow> socketWf m so"
  by (auto simp: socketWf_def)

lemma timerWf_mono: "timerWf n c x \<Longrightarrow> n \<le> m \<Longrightarrow> c \<le> c' \<Longrightarrow> timerWf m c' x"
  by (cases "(n, c, x)" rule: timerWf.cases) auto

lemma in_set_updateSocket:
  "so \<in> set (sockets (updateSocket k f s)) \<Longrightarrow>
   so \<in> set (sockets s) \<or> (\<exists>so0 \<in> set (sockets s). so = f so0)"
proof -
  assume a: "so \<in> set (sockets (updateSocket k f s))"
  show ?thesis
  proof (cases "k < length (sockets s)")
    case True
    with a have "so \<in> insert (f (sockets s ! k)) (set (sockets s))"
      using set_update_subset_insert [of "sockets s" k "f (sockets s ! k)"]
      by (auto simp: updateSocket_def)
    with True show ?thesis by auto
  next
    case False
    with a show ?thesis by (simp add: updateSocket_def)
  qed
qed

lemma wellFormed_updateSocket:
  "wellFormed s \<Longrightarrow> (\<And>so. socketWf (length (promises s)) so \<Longrightarrow> socketWf (length (promises s)) (f so))
   \<Longrightarrow> wellFormed (updateSocket k f s)"
  by (auto simp: wellFormed_def dest!: in_set_updateSocket)

lemma wellFormed_settle: "wellFormed s \<Longrightarrow> wellFormed (settle p v s)"
  by (simp add: wellFormed_def)

lemma wellFormed_updateStatus: "wellFormed s \<Longrightarrow> wellFormed (updateStatus st e s)"
  by (simp add: wellFormed_def)

lemma wellFormed_clearTimeout: "wellFormed s \<Longrightarrow> wellFormed (clearTimeout t s)"
  by (simp add: wellFormed_def clearTimeout_def)

lemma wellFormed_newPromise: "wellFormed s \<Longrightarrow> wellFormed (newPromise s)"
  by (auto simp: wellFormed_def intro: socketWf_mono timerWf_mono)

lemma wellFormed_setTimeout: "wellFormed s \<Longrightarrow> timerWf (length (promises s)) (Suc (timerCount s)) (timerCount s, d, a)
   \<Longrightarrow> wellFormed (setTimeout a d s)"
  by (auto simp: wellFormed_def intro: timerWf_mono)

lemma wellFormed_other_fields:
  "wellFormed s \<Longrightarrow> wellFormed (s\<lparr>ws := w\<rparr>)"
  "wellFormed s \<Longrightarrow> wellFormed (s\<lparr>connected := b\<rparr>)"
  "wellFormed s \<Longrightarrow> wellFormed (s\<lparr>connectionState := cs\<rparr>)"
  "wellFormed s \<Longrightarrow> wellFormed (s\<lparr>calls := cl\<rparr>)"
  "wellFormed s \<Longrightarrow> wellFormed (s\<lparr>uuidCount := u\<rparr>)"
  "wellFormed s \<Longrightarrow> wellFormed (s\<lparr>now := t\<rparr>)"
  "wellFormed s \<Longrightarrow> wellFormed (s\<lparr>connectCallbacks := c1\<rparr>)"
  "wellFormed s \<Longrightarrow> wellFormed (s\<lparr>disconnectCallbacks := c2\<rparr>)"
  "wellFormed s \<Longrightarrow> wellFormed (s\<lparr>eventCallbacks := c3\<rparr>)"
  "wellFormed s \<Longrightarrow> wellFormed (s\<lparr>chatEventCallbacks := c4\<rparr>)"
  "wellFormed s \<Longrightarrow> wellFormed (s\<lparr>pendingRequests := []\<rparr>)"
  by (simp_all add: wellFormed_def)

lemma in_set_remove1: "x \<in> set (remove1 y xs) \<Longrightarrow> x \<in> set xs"
  by (meson notin_set_remove1)

lemma socketWf_updates:
  "socketWf n so \<Longrightarrow> socketWf n (so\<lparr>listeners := remove1 h (listeners so)\<rparr>)"
  "socketWf n so \<Longrightarrow> promiseOf h < n \<Longrightarrow> socketWf n (so\<lparr>listeners := listeners so @ [h]\<rparr>)"
  "socketWf n so \<Longrightarrow> socketWf n (so\<lparr>readyState := r\<rparr>)"
  "socketWf n so \<Longrightarrow> socketWf n (so\<lparr>sent := fs\<rparr>)"
  by (auto simp: socketWf_def dest: in_set_remove1)

lemma wellFormed_removeFromCurrent: "wellFormed s \<Longrightarrow> wellFormed (removeFromCurrent h s)"
  by (simp add: removeFromCurrent_def removeEventListener_def wellFormed_updateSocket socketWf_updates
      split: option.splits)

lemma wellFormed_runListener: "wellFormed s \<Longrightarrow> wellFormed (runListener h parsed s)"
  by (cases h) (simp add: resolve_def wellFormed_settle wellFormed_removeFromCurrent split: option.splits)

lemma wellFormed_fold_runListener: "wellFormed s \<Longrightarrow> wellFormed (fold (\<lambda>h. runListener h parsed) hs s)"
  by (induction hs arbitrary: s) (simp_all add: wellFormed_runListener)

lemma wellFormed_send: "wellFormed s \<Longrightarrow> wellFormed (send frame s)"
  by (simp add: send_def socketSend_def wellFormed_updateSocket socketWf_updates split: option.splits)

lemma wellFormed_sendConnect: "wellFormed s \<Longrightarrow> wellFormed (sendConnect s)"
  by (simp add: sendConnect_def wellFormed_send wellFormed_other_fields)

lemma wellFormed_socketClose: "wellFormed s \<Longrightarrow> wellFormed (socketClose k s)"
  by (simp add: socketClose_def wellFormed_updateSocket socketWf_updates)

lemma disconnect_unfold:
  "pendingRequests s = [] \<Longrightarrow>
   disconnect s =
     (updateStatus Disconnected (Some ''Manually disconnected'')
        ((case ws s of None \<Rightarrow> s | Some k \<Rightarrow> (socketClose k s)\<lparr>ws := None\<rparr>)\<lparr>connected := False\<rparr>))
       \<lparr>pendingRequests := []\<rparr>"
  by (simp add: disconnect_def Let_def socketClose_def split: option.splits)

lemma wellFormed_disconnect: "wellFormed s \<Longrightarrow> wellFormed (disconnect s)"
proof -
  assume w: "wellFormed s"
  then have p: "pendingRequests s = []" by (simp add: wellFormed_def)
  show ?thesis
    unfolding disconnect_unfold [OF p] using w
    by (auto intro!: wellFormed_other_fields wellFormed_updateStatus wellFormed_socketClose
        split: option.splits)
qed

lemma wellFormed_connect: "wellFormed s \<Longrightarrow> wellFormed (connect url s)"
proof -
  assume w: "wellFormed s"
  have w2: "wellFormed (newPromise (updateStatus Connecting None s))"
    using w by (simp add: wellFormed_newPromise wellFormed_updateStatus)
  show ?thesis
    using w2 unfolding connect_def Let_def
    by (auto simp: wellFormed_def socketWf_def reject_def)
qed

lemma wellFormed_sendWithResponse: "wellFormed s \<Longrightarrow> wellFormed (sendWithResponse frame s)"
proof -
  assume w: "wellFormed s"
  have w2: "wellFormed (newPromise s)"
    using w by (simp add: wellFormed_newPromise)
  show ?thesis
    using w2 unfolding sendWithResponse_def Let_def
    by (auto simp: resolve_def addEventListener_def socketSend_def socketWf_updates
        intro!: wellFormed_settle wellFormed_setTimeout wellFormed_updateSocket split: option.splits)
qed

lemma wellFormed_handleResponse: "wellFormed s \<Longrightarrow> wellFormed (fst (handleResponse r s))"
  by (auto simp: handleResponse_def Let_def wellFormed_def [of s] pendingGet_def
      intro!: wellFormed_other_fields wellFormed_updateStatus split: prod.splits option.splits json.splits)

lemma wellFormed_handleEvent: "wellFormed s \<Longrightarrow> wellFormed (fst (handleEvent e s))"
  by (auto simp: handleEvent_def handleChatEvent_def Let_def
      intro!: wellFormed_other_fields split: prod.splits option.splits)

lemma handleMessage_fst: "fst (handleMessage parsed s) = fst (handleMessage_try parsed s)"
  by (simp add: handleMessage_def split: prod.splits option.splits)

lemma wellFormed_handleMessage: "wellFormed s \<Longrightarrow> wellFormed (fst (handleMessage parsed s))"
  by (simp add: handleMessage_fst handleMessage_try_def wellFormed_sendConnect
      wellFormed_handleResponse wellFormed_handleEvent split: option.splits)

lemma wellFormed_onmessage: "wellFormed s \<Longrightarrow> wellFormed (fst (onmessage k parsed s))"
  using wellFormed_handleMessage [of s parsed]
  by (cases "handleMessage parsed s") (simp add: onmessage_def wellFormed_fold_runListener)

lemma wellFormed_onopen: "wellFormed s \<Longrightarrow> wellFormed (onopen k s)"
  by (simp add: onopen_def resolve_def wellFormed_settle wellFormed_updateSocket socketWf_updates)

lemma wellFormed_onerror: "wellFormed s \<Longrightarrow> wellFormed (onerror k s)"
  by (simp add: onerror_def reject_def wellFormed_settle wellFormed_updateStatus)

lemma wellFormed_onclose: "wellFormed s \<Longrightarrow> wellFormed (fst (onclose k code reason s))"
  by (simp add: onclose_def Let_def socketWf_updates
      wellFormed_setTimeout wellFormed_other_fields wellFormed_updateStatus wellFormed_updateSocket
      split: prod.splits option.splits)

lemma wellFormed_requestTimeout: "wellFormed s \<Longrightarrow> wellFormed (requestTimeout h s)"
  by (cases h) (simp add: resolve_def wellFormed_settle wellFormed_removeFromCurrent)

lemma wellFormed_fireTimer: "wellFormed s \<Longrightarrow> wellFormed (fireTimer t s)"
  by (simp add: fireTimer_def Let_def reconnect_def
      wellFormed_connect wellFormed_disconnect wellFormed_clearTimeout wellFormed_requestTimeout
      split: option.splits timer_action.splits prod.splits)

lemma wellFormed_step: "wellFormed s \<Longrightarrow> wellFormed (step s ev)"
  by (cases ev)
    (simp_all add: wellFormed_connect wellFormed_disconnect reconnect_def wellFormed_send
      wellFormed_sendWithResponse wellFormed_other_fields wellFormed_onopen wellFormed_onmessage
      wellFormed_onerror wellFormed_onclose wellFormed_fireTimer)

lemma wellFormed_new: "wellFormed (newWebSocketService cfg key accepts)"
  by (simp add: wellFormed_def newWebSocketService_def)

lemma reachable_wellFormed: "reachable s \<Longrightarrow> wellFormed s"
  by (induction rule: reachable.induct) (simp_all add: wellFormed_new wellFormed_step)

lemma reachable_run: "reachable s \<Longrightarrow> reachable (run s evs)"
  unfolding run_def
  by (induction evs arbitrary: s) (simp_all add: reachable_step)

section \<open>A request that is waiting for its answer\<close>

lemma tracks_updateSocket:
  "tracks frame p T s \<Longrightarrow> (\<And>so. socketTracks frame p so \<Longrightarrow> socketTracks frame p (f so))
   \<Longrightarrow> tracks frame p T (updateSocket k f s)"
  by (auto simp: tracks_def dest!: in_set_updateSocket)

lemma tracks_settle:
  "tracks frame p T s \<Longrightarrow> q \<noteq> p \<or> v = Fulfilled (Some JNull) \<Longrightarrow> tracks frame p T (settle q v s)"
  by (auto simp: tracks_def settle_def nth_list_update)

lemma tracks_updateStatus: "tracks frame p T s \<Longrightarrow> tracks frame p T (updateStatus st e s)"
  by (simp add: tracks_def)

lemma tracks_clearTimeout: "tracks frame p T s \<Longrightarrow> tracks frame p T (clearTimeout t s)"
  by (simp add: tracks_def clearTimeout_def)

lemma tracks_newPromise: "tracks frame p T s \<Longrightarrow> tracks frame p T (newPromise s)"
  by (auto simp: tracks_def nth_append)

lemma tracks_setTimeout:
  "tracks frame p T s \<Longrightarrow> timerTracks frame p T (timerCount s, d, a) \<Longrightarrow> tracks frame p T (setTimeout a d s)"
  by (auto simp: tracks_def)

lemma tracks_other_fields:
  "tracks frame p T s \<Longrightarrow> tracks frame p T (s\<lparr>ws := w\<rparr>)"
  "tracks frame p T s \<Longrightarrow> tracks frame p T (s\<lparr>connected := b\<rparr>)"
  "tracks frame p T s \<Longrightarrow> tracks frame p T (s\<lparr>connectionState := cs\<rparr>)"
  "tracks frame p T s \<Longrightarrow> tracks frame p T (s\<lparr>calls := cl\<rparr>)"
  "tracks frame p T s \<Longrightarrow> tracks frame p T (s\<lparr>uuidCount := u\<rparr>)"
  "tracks frame p T s \<Longrightarrow> tracks frame p T (s\<lparr>now := t\<rparr>)"
  "tracks frame p T s \<Longrightarrow> tracks frame p T (s\<lparr>connectCallbacks := c1\<rparr>)"
  "tracks frame p T s \<Longrightarrow> tracks frame p T (s\<lparr>disconnectCallbacks := c2\<rparr>)"
  "tracks frame p T s \<Longrightarrow> tracks frame p T (s\<lparr>eventCallbacks := c3\<rparr>)"
  "tracks frame p T s \<Longrightarrow> tracks frame p T (s\<lparr>chatEventCallbacks := c4\<rparr>)"
  "tracks frame p T s \<Longrightarrow> tracks frame p T (s\<lparr>pendingRequests := []\<rparr>)"
  by (simp_all add: tracks_def)

lemma socketTracks_updates:
  "socketTracks frame p so \<Longrightarrow> socketTracks frame p (so\<lparr>listeners := remove1 h (listeners so)\<rparr>)"
  "socketTracks frame p so \<Longrightarrow> promiseOf h = p \<longrightarrow> frameOf h = frame
     \<Longrightarrow> socketTracks frame p (so\<lparr>listeners := listeners so @ [h]\<rparr>)"
  "socketTracks frame p so \<Longrightarrow> socketTracks frame p (so\<lparr>readyState := r\<rparr>)"
  "socketTracks frame p so \<Longrightarrow> socketTracks frame p (so\<lparr>sent := fs\<rparr>)"
  by (auto simp: socketTracks_def dest: in_set_remove1)

lemma tracks_removeFromCurrent: "tracks frame p T s \<Longrightarrow> tracks frame p T (removeFromCurrent h s)"
  by (simp add: removeFromCurrent_def removeEventListener_def tracks_updateSocket socketTracks_updates
      split: option.splits)

lemma tracks_runListener:
  "tracks frame p T s \<Longrightarrow> promiseOf h = p \<longrightarrow> frameOf h = frame
   \<Longrightarrow> \<not> answers frame (SocketMessage k parsed) \<Longrightarrow> tracks frame p T (runListener h parsed s)"
  by (cases h) (auto simp: resolve_def tracks_settle tracks_removeFromCurrent split: option.splits)

lemma tracks_fold_runListener:
  "tracks frame p T s \<Longrightarrow> \<forall>h \<in> set hs. promiseOf h = p \<longrightarrow> frameOf h = frame
   \<Longrightarrow> \<not> answers frame (SocketMessage k parsed)
   \<Longrightarrow> tracks frame p T (fold (\<lambda>h. runListener h parsed) hs s)"
  by (induction hs arbitrary: s) (simp_all add: tracks_runListener)

lemma tracks_send: "tracks frame p T s \<Longrightarrow> tracks frame p T (send f s)"
  by (simp add: send_def socketSend_def tracks_updateSocket socketTracks_updates split: option.splits)

lemma tracks_sendConnect: "tracks frame p T s \<Longrightarrow> tracks frame p T (sendConnect s)"
  by (simp add: sendConnect_def tracks_send tracks_other_fields)

lemma tracks_socketClose: "tracks frame p T s \<Longrightarrow> tracks frame p T (socketClose k s)"
  by (simp add: socketClose_def tracks_updateSocket socketTracks_updates)

lemma tracks_disconnect:
  "pendingRequests s = [] \<Longrightarrow> tracks frame p T s \<Longrightarrow> tracks frame p T (disconnect s)"
  by (auto simp: disconnect_unfold intro!: tracks_other_fields tracks_updateStatus tracks_socketClose
      split: option.splits)

lemma tracks_connect: "tracks frame p T s \<Longrightarrow> tracks frame p T (connect url s)"
proof -
  assume w: "tracks frame p T s"
  have w2: "tracks frame p T (newPromise (updateStatus Connecting None s))"
    using w by (simp add: tracks_newPromise tracks_updateStatus)
  have r: "tracks frame p T (reject (length (promises s)) e (newPromise (updateStatus Connecting None s)))" for e
    using w w2 unfolding reject_def by (intro tracks_settle) (auto simp: tracks_def)
  show ?thesis
    using w w2 r unfolding connect_def Let_def
    by (auto simp: tracks_def socketTracks_def)
qed

lemma tracks_sendWithResponse: "tracks frame p T s \<Longrightarrow> tracks frame p T (sendWithResponse f s)"
proof -
  assume w: "tracks frame p T s"
  then have lt: "p < length (promises s)" and tl: "T < timerCount s"
    by (simp_all add: tracks_def)
  have w2: "tracks frame p T (newPromise s)"
    using w by (simp add: tracks_newPromise)
  show ?thesis
    using w2 lt tl unfolding sendWithResponse_def Let_def
    by (auto simp: resolve_def addEventListener_def socketSend_def socketTracks_updates
        intro!: tracks_settle tracks_setTimeout tracks_updateSocket split: option.splits)
qed

lemma tracks_handleResponse:
  "pendingRequests s = [] \<Longrightarrow> tracks frame p T s \<Longrightarrow> tracks frame p T (fst (handleResponse r s))"
  by (auto simp: handleResponse_def Let_def pendingGet_def
      intro!: tracks_other_fields tracks_updateStatus split: prod.splits option.splits json.splits)

lemma tracks_handleEvent: "tracks frame p T s \<Longrightarrow> tracks frame p T (fst (handleEvent e s))"
  by (auto simp: handleEvent_def handleChatEvent_def Let_def
      intro!: tracks_other_fields split: prod.splits option.splits)

lemma tracks_handleMessage:
  "pendingRequests s = [] \<Longrightarrow> tracks frame p T s \<Longrightarrow> tracks frame p T (fst (handleMessage parsed s))"
  by (simp add: handleMessage_fst handleMessage_try_def tracks_sendConnect
      tracks_handleResponse tracks_handleEvent split: option.splits)

lemma tracks_onmessage:
  assumes "pendingRequests s = []" and "tracks frame p T s" and "\<not> answers frame (SocketMessage k parsed)"
  shows "tracks frame p T (fst (onmessage k parsed s))"
proof (cases "k < length (sockets s)")
  case True
  then have "sockets s ! k \<in> set (sockets s)" by simp
  with assms(2) have l: "\<forall>h \<in> set (listeners (sockets s ! k)). promiseOf h = p \<longrightarrow> frameOf h = frame"
    by (auto simp: tracks_def socketTracks_def)
  obtain s1 r where h: "handleMessage parsed s = (s1, r)" by (cases "handleMessage parsed s")
  with tracks_handleMessage [OF assms(1,2), of parsed] have "tracks frame p T s1" by simp
  then show ?thesis
    using True h l assms(3) by (simp add: onmessage_def tracks_fold_runListener)
next
  case False
  with assms(2) show ?thesis by (simp add: onmessage_def)
qed

lemma tracks_onopen: "tracks frame p T s \<Longrightarrow> tracks frame p T (onopen k s)"
proof (cases "k < length (sockets s)")
  case True
  assume w: "tracks frame p T s"
  from True have "sockets s ! k \<in> set (sockets s)" by simp
  with w have "connectPromise (sockets s ! k) \<noteq> p" by (auto simp: tracks_def socketTracks_def)
  with True w show ?thesis
    by (simp add: onopen_def resolve_def tracks_settle tracks_updateSocket socketTracks_updates)
next
  case False
  assume w: "tracks frame p T s"
  with False show ?thesis by (simp add: onopen_def)
qed

lemma tracks_onerror: "tracks frame p T s \<Longrightarrow> tracks frame p T (onerror k s)"
proof (cases "k < length (sockets s)")
  case True
  assume w: "tracks frame p T s"
  from True have "sockets s ! k \<in> set (sockets s)" by simp
  with w have "connectPromise (sockets s ! k) \<noteq> p" by (auto simp: tracks_def socketTracks_def)
  with True w show ?thesis
    by (simp add: onerror_def reject_def tracks_settle tracks_updateStatus)
next
  case False
  assume w: "tracks frame p T s"
  with False show ?thesis by (simp add: onerror_def)
qed

lemma tracks_onclose: "tracks frame p T s \<Longrightarrow> tracks frame p T (fst (onclose k code reason s))"
proof -
  assume w: "tracks frame p T s"
  then have tl: "T < timerCount s" by (simp add: tracks_def)
  show ?thesis using w tl
    by (simp add: onclose_def Let_def socketTracks_updates
      tracks_setTimeout tracks_other_fields tracks_updateStatus tracks_updateSocket
      split: prod.splits option.splits)
qed

lemma tracks_requestTimeout: "tracks frame p T s \<Longrightarrow> tracks frame p T (requestTimeout h s)"
  by (cases h) (simp add: resolve_def tracks_settle tracks_removeFromCurrent)

lemma tracks_fireTimer:
  "pendingRequests s = [] \<Longrightarrow> tracks frame p T s \<Longrightarrow> tracks frame p T (fireTimer t s)"
  by (simp add: fireTimer_def Let_def reconnect_def
      tracks_connect tracks_disconnect tracks_clearTimeout tracks_requestTimeout
      split: option.splits timer_action.splits prod.splits)

lemma tracks_step:
  "pendingRequests s = [] \<Longrightarrow> tracks frame p T s \<Longrightarrow> \<not> answers frame ev \<Longrightarrow> tracks frame p T (step s ev)"
  by (cases ev)
    (simp_all add: tracks_connect tracks_disconnect reconnect_def tracks_send
      tracks_sendWithResponse tracks_other_fields tracks_onopen tracks_onmessage
      tracks_onerror tracks_onclose tracks_fireTimer)

subsection \<open>A settled promise stays as it is\<close>

lemma promiseState_Some:
  "(promiseState s p = Some v) = (p < length (promises s) \<and> promises s ! p = v)"
  by (auto simp: promiseState_def)

lemma settled_settle:
  "promiseState s p = Some v \<Longrightarrow> v \<noteq> Pending \<Longrightarrow> promiseState (settle q w s) p = Some v"
  by (auto simp: promiseState_Some settle_def nth_list_update)

lemma settled_newPromise:
  "promiseState s p = Some v \<Longrightarrow> promiseState (newPromise s) p = Some v"
  by (auto simp: promiseState_Some nth_append)

lemma promiseState_cong: "promises s' = promises s \<Longrightarrow> promiseState s' p = promiseState s p"
  by (simp add: promiseState_def)

lemma settled_rejectAll:
  "promiseState s p = Some v \<Longrightarrow> v \<noteq> Pending \<Longrightarrow> promiseState (rejectAll m s) p = Some v"
proof (induction m arbitrary: s)
  case Nil
  then show ?case by simp
next
  case (Cons e m)
  obtain i request where e: "e = (i, request)" by (cases e)
  have "promiseState (reject (pr_promise request) (Error ''Connection closed'') (clearTimeout (pr_timeout request) s)) p = Some v"
    unfolding reject_def using Cons.prems
    by (intro settled_settle) (simp_all add: promiseState_Some)
  with Cons show ?case by (simp add: e)
qed

lemma settled_disconnect:
  "promiseState s p = Some v \<Longrightarrow> v \<noteq> Pending \<Longrightarrow> promiseState (disconnect s) p = Some v"
proof -
  assume a: "promiseState s p = Some v" "v \<noteq> Pending"
  define s3 where "s3 = updateStatus Disconnected (Some ''Manually disconnected'')
     ((case ws s of None \<Rightarrow> s | Some k \<Rightarrow> (socketClose k s)\<lparr>ws := None\<rparr>)\<lparr>connected := False\<rparr>)"
  have "promises s3 = promises s"
    by (simp add: s3_def socketClose_def split: option.splits)
  with a have "promiseState s3 p = Some v" by (simp add: promiseState_Some)
  with a have "promiseState (rejectAll (pendingRequests s3) s3) p = Some v"
    by (simp add: settled_rejectAll)
  then show ?thesis
    by (simp add: disconnect_def Let_def s3_def promiseState_Some)
qed

lemma settled_connect:
  "promiseState s p = Some v \<Longrightarrow> v \<noteq> Pending \<Longrightarrow> promiseState (connect url s) p = Some v"
  by (auto simp: connect_def Let_def reject_def promiseState_Some settle_def nth_append nth_list_update)

lemma settled_sendWithResponse:
  "promiseState s p = Some v \<Longrightarrow> v \<noteq> Pending \<Longrightarrow> promiseState (sendWithResponse f s) p = Some v"
  by (auto simp: sendWithResponse_def Let_def resolve_def promiseState_Some settle_def nth_append
      nth_list_update addEventListener_def socketSend_def split: option.splits)

lemma settled_removeFromCurrent:
  "promiseState (removeFromCurrent h s) p = promiseState s p"
  by (simp add: promiseState_def)

lemma settled_runListener:
  "promiseState s p = Some v \<Longrightarrow> v \<noteq> Pending \<Longrightarrow> promiseState (runListener h parsed s) p = Some v"
  by (cases h) (simp add: resolve_def settled_settle settled_removeFromCurrent split: option.splits)

lemma settled_fold_runListener:
  "promiseState s p = Some v \<Longrightarrow> v \<noteq> Pending
   \<Longrightarrow> promiseState (fold (\<lambda>h. runListener h parsed) hs s) p = Some v"
  by (induction hs arbitrary: s) (simp_all add: settled_runListener)

lemma resolvePending_promises:
  "promises (fst (resolvePending r s)) =
     (case pendingGet (pendingRequests s) (res_id r) of
        None \<Rightarrow> promises s
      | Some pending \<Rightarrow>
          if \<not> res_ok r \<and> requestErrorThrows (res_error r) then promises s
          else promises (settle (pr_promise pending)
                           (if res_ok r then Fulfilled (res_payload r)
                            else Rejected (requestError (res_error r))) s))"
  by (simp add: resolvePending_def Let_def resolve_def reject_def settle_def clearTimeout_def
      split: option.splits)

lemma handleResponse_promises:
  "promises (fst (handleResponse r s)) = promises (fst (resolvePending r s))"
  by (simp add: handleResponse_def Let_def split: prod.splits option.splits)

lemma settled_handleResponse:
  "promiseState s p = Some v \<Longrightarrow> v \<noteq> Pending \<Longrightarrow> promiseState (fst (handleResponse r s)) p = Some v"
  using settled_settle [of s p v]
  by (simp add: promiseState_Some handleResponse_promises resolvePending_promises split: option.splits)

lemma handleEvent_promises [simp]: "promises (fst (handleEvent e s)) = promises s"
  by (simp add: handleEvent_def handleChatEvent_def Let_def split: prod.splits option.splits)

lemma handleEvent_timers [simp]: "timers (fst (handleEvent e s)) = timers s"
  by (simp add: handleEvent_def handleChatEvent_def Let_def split: prod.splits option.splits)

lemma settled_handleMessage:
  "promiseState s p = Some v \<Longrightarrow> v \<noteq> Pending \<Longrightarrow> promiseState (fst (handleMessage parsed s)) p = Some v"
  by (simp add: handleMessage_fst handleMessage_try_def settled_handleResponse
      promiseState_cong [of "sendConnect s" s] promiseState_cong [of "fst (handleEvent e s)" s for e]
      split: option.splits)

lemma settled_onmessage:
  "promiseState s p = Some v \<Longrightarrow> v \<noteq> Pending \<Longrightarrow> promiseState (fst (onmessage k parsed s)) p = Some v"
  using settled_handleMessage [of s p v parsed]
  by (cases "handleMessage parsed s") (simp add: onmessage_def settled_fold_runListener)

lemma settled_onopen:
  "promiseState s p = Some v \<Longrightarrow> v \<noteq> Pending \<Longrightarrow> promiseState (onopen k s) p = Some v"
  by (simp add: onopen_def resolve_def settled_settle promiseState_cong [of "updateSocket k f s" s for f])

lemma settled_onerror:
  "promiseState s p = Some v \<Longrightarrow> v \<noteq> Pending \<Longrightarrow> promiseState (onerror k s) p = Some v"
  by (simp add: onerror_def reject_def settled_settle promiseState_cong [of "updateStatus st e s" s for st e])

lemma onclose_promises [simp]: "promises (fst (onclose k code reason s)) = promises s"
  by (simp add: onclose_def Let_def split: prod.splits option.splits)

lemma settled_requestTimeout:
  "promiseState s p = Some v \<Longrightarrow> v \<noteq> Pending \<Longrightarrow> promiseState (requestTimeout h s) p = Some v"
  by (cases h) (simp add: resolve_def settled_settle settled_removeFromCurrent)

lemma settled_fireTimer:
  "promiseState s p = Some v \<Longrightarrow> v \<noteq> Pending \<Longrightarrow> promiseState (fireTimer t s) p = Some v"
  by (simp add: fireTimer_def Let_def reconnect_def settled_connect settled_disconnect
      settled_requestTimeout promiseState_cong [of "clearTimeout t s" s]
      split: option.splits timer_action.splits prod.splits)

lemma settled_step:
  "promiseState s p = Some v \<Longrightarrow> v \<noteq> Pending \<Longrightarrow> promiseState (step s ev) p = Some v"
  by (cases ev)
    (simp_all add: settled_connect settled_disconnect reconnect_def settled_sendWithResponse
      settled_onopen settled_onmessage settled_onerror settled_fireTimer promiseState_Some)

lemma settled_run:
  "promiseState s p = Some v \<Longrightarrow> v \<noteq> Pending \<Longrightarrow> promiseState (run s evs) p = Some v"
  unfolding run_def
  by (induction evs arbitrary: s) (simp_all add: settled_step)

subsection \<open>A timer that is set stays set until it runs out\<close>

lemma connect_timers [simp]: "timers (connect url s) = timers s"
  by (simp add: connect_def Let_def reject_def)

lemma disconnect_timers: "pendingRequests s = [] \<Longrightarrow> timers (disconnect s) = timers s"
  by (simp add: disconnect_unfold socketClose_def split: option.splits)

lemma disconnect_pending [simp]: "pendingRequests (disconnect s) = []"
  by (simp add: disconnect_def Let_def)

lemma connect_pending [simp]: "pendingRequests (connect url s) = pendingRequests s"
  by (simp add: connect_def Let_def reject_def)

lemma sendWithResponse_pending [simp]: "pendingRequests (sendWithResponse f s) = pendingRequests s"
  by (simp add: sendWithResponse_def Let_def resolve_def addEventListener_def socketSend_def
      split: option.splits)

lemma sendWithResponse_timers: "x \<in> set (timers s) \<Longrightarrow> x \<in> set (timers (sendWithResponse f s))"
  by (simp add: sendWithResponse_def Let_def resolve_def addEventListener_def socketSend_def
      split: option.splits)

lemma handleResponse_timers: "pendingRequests s = [] \<Longrightarrow> timers (fst (handleResponse r s)) = timers s"
  by (simp add: handleResponse_def Let_def pendingGet_def split: prod.splits option.splits json.splits)

lemma handleMessage_timers: "pendingRequests s = [] \<Longrightarrow> timers (fst (handleMessage parsed s)) = timers s"
  by (simp add: handleMessage_fst handleMessage_try_def handleResponse_timers split: option.splits)

lemma onmessage_timers: "pendingRequests s = [] \<Longrightarrow> timers (fst (onmessage k parsed s)) = timers s"
  using handleMessage_timers [of s parsed]
  by (cases "handleMessage parsed s") (simp add: onmessage_def)

lemma onopen_timers [simp]: "timers (onopen k s) = timers s"
  by (simp add: onopen_def resolve_def)

lemma onerror_timers [simp]: "timers (onerror k s) = timers s"
  by (simp add: onerror_def reject_def)

lemma onclose_timers: "x \<in> set (timers s) \<Longrightarrow> x \<in> set (timers (fst (onclose k code reason s)))"
  by (simp add: onclose_def Let_def split: prod.splits option.splits)

lemma requestTimeout_timers [simp]: "timers (requestTimeout h s) = timers s"
  by (cases h) (simp add: resolve_def)

lemma fireTimer_timers:
  "pendingRequests s = [] \<Longrightarrow> x \<in> set (timers s) \<Longrightarrow> fst x \<noteq> t \<Longrightarrow> x \<in> set (timers (fireTimer t s))"
  by (simp add: fireTimer_def Let_def reconnect_def disconnect_timers clearTimeout_def
      split: option.splits timer_action.splits prod.splits)

lemma step_timers:
  "pendingRequests s = [] \<Longrightarrow> x \<in> set (timers s) \<Longrightarrow> ev \<noteq> TimerFires (fst x)
   \<Longrightarrow> x \<in> set (timers (step s ev))"
  by (cases ev)
    (auto simp: reconnect_def disconnect_timers sendWithResponse_timers onmessage_timers
      onclose_timers fireTimer_timers)

subsection \<open>The timer of a request resolves it\<close>

lemma find_timer:
  "(t, d, a) \<in> set xs \<Longrightarrow> \<exists>d' a'. find (\<lambda>x. fst x = t) xs = Some (t, d', a') \<and> (t, d', a') \<in> set xs"
proof (induction xs)
  case Nil
  then show ?case by simp
next
  case (Cons y ys)
  show ?case
  proof (cases "fst y = t")
    case True
    then obtain d' a' where "y = (t, d', a')" by (cases y) auto
    then show ?thesis by auto
  next
    case False
    with Cons show ?thesis by auto
  qed
qed

lemma requestTimeout_settles:
  "p < length (promises s) \<Longrightarrow> promises s ! p = Pending \<or> promises s ! p = Fulfilled (Some JNull)
   \<Longrightarrow> promiseState (requestTimeout (ResponseHandler frame p) s) p = Some (Fulfilled (Some JNull))"
  by (auto simp: promiseState_Some resolve_def settle_def)

lemma fireTimer_found:
  "find (\<lambda>x. fst x = t) (timers s) = Some (t, d, RequestTimeout h)
   \<Longrightarrow> fireTimer t s = requestTimeout h (clearTimeout t s)"
  by (simp add: fireTimer_def)

lemma timerTracks_own:
  "timerTracks frame p T (T, d, a) \<Longrightarrow> a = RequestTimeout (ResponseHandler frame p)"
proof (cases a)
  case Reconnect
  assume "timerTracks frame p T (T, d, a)"
  with Reconnect show ?thesis by simp
next
  case (RequestTimeout h)
  assume "timerTracks frame p T (T, d, a)"
  with RequestTimeout show ?thesis by (cases h) simp
qed

lemma fireTimer_own:
  assumes "tracks frame p T s"
    and "(T, 10000, RequestTimeout (ResponseHandler frame p)) \<in> set (timers s)"
  shows "promiseState (fireTimer T s) p = Some (Fulfilled (Some JNull))"
proof -
  from find_timer [OF assms(2)] obtain d a
    where f: "find (\<lambda>x. fst x = T) (timers s) = Some (T, d, a)" and x: "(T, d, a) \<in> set (timers s)"
    by blast
  from assms(1) have "\<forall>x \<in> set (timers s). timerTracks frame p T x" unfolding tracks_def by blast
  with x have tt: "timerTracks frame p T (T, d, a)" by blast
  from tt have a: "a = RequestTimeout (ResponseHandler frame p)" by (rule timerTracks_own)
  from assms(1) have p: "p < length (promises s)"
    and v: "promises s ! p = Pending \<or> promises s ! p = Fulfilled (Some JNull)"
    unfolding tracks_def by blast+
  have p': "p < length (promises (clearTimeout T s))" using p by simp
  have v': "promises (clearTimeout T s) ! p = Pending \<or> promises (clearTimeout T s) ! p = Fulfilled (Some JNull)"
    using v by simp
  have e: "fireTimer T s = requestTimeout (ResponseHandler frame p) (clearTimeout T s)"
    using f unfolding a by (rule fireTimer_found)
  show ?thesis
    unfolding e by (rule requestTimeout_settles [OF p' v'])
qed

lemma waiting_step:
  assumes "waiting frame p T s" and "\<not> answers frame ev"
  shows "waiting frame p T (step s ev)"
proof -
  from assms(1) have w: "wellFormed s" and t: "tracks frame p T s"
    and e: "promises s ! p = Pending \<longrightarrow> (T, 10000, RequestTimeout (ResponseHandler frame p)) \<in> set (timers s)"
    by (simp_all add: waiting_def)
  from w have pe: "pendingRequests s = []" by (simp add: wellFormed_def)
  from t have p: "p < length (promises s)" by (simp add: tracks_def)
  have w': "wellFormed (step s ev)" using w by (rule wellFormed_step)
  have t': "tracks frame p T (step s ev)" using pe t assms(2) by (rule tracks_step)
  have e': "(T, 10000, RequestTimeout (ResponseHandler frame p)) \<in> set (timers (step s ev))"
    if pend: "promises (step s ev) ! p = Pending"
  proof -
    have was: "promises s ! p = Pending"
    proof (rule ccontr)
      assume n: "promises s ! p \<noteq> Pending"
      with p have "promiseState (step s ev) p = Some (promises s ! p)"
        by (intro settled_step) (simp_all add: promiseState_Some)
      with pend n show False by (simp add: promiseState_Some)
    qed
    with e have x: "(T, 10000, RequestTimeout (ResponseHandler frame p)) \<in> set (timers s)" by simp
    show ?thesis
    proof (cases "ev = TimerFires T")
      case True
      with fireTimer_own [OF t x] pend show ?thesis by (simp add: promiseState_Some)
    next
      case False
      with step_timers [OF pe x, of ev] show ?thesis by simp
    qed
  qed
  show ?thesis using w' t' e' by (simp add: waiting_def)
qed

lemma waiting_run:
  "waiting frame p T s \<Longrightarrow> \<forall>ev \<in> set evs. \<not> answers frame ev \<Longrightarrow> waiting frame p T (run s evs)"
  unfolding run_def
  by (induction evs arbitrary: s) (simp_all add: waiting_step)

lemma wsOpen_ws: "wsOpen s \<Longrightarrow> \<exists>k. ws s = Some k \<and> k < length (sockets s)"
  by (auto simp: wsOpen_def split: option.splits)

lemma waiting_sendWithResponse:
  assumes "wellFormed s" and "wsOpen s"
  shows "waiting frame (length (promises s)) (timerCount s) (sendWithResponse frame s)"
proof -
  from assms(2) obtain k where k: "ws s = Some k" "k < length (sockets s)"
    using wsOpen_ws by blast
  have o: "wsOpen (newPromise s)" using assms(2) by (simp add: wsOpen_def split: option.splits)
  have eq: "sendWithResponse frame s =
      setTimeout (RequestTimeout (ResponseHandler frame (length (promises s)))) 10000
        (socketSend k frame (addEventListener k (ResponseHandler frame (length (promises s))) (newPromise s)))"
    using o k by (simp add: sendWithResponse_def Let_def)
  have w: "wellFormed (sendWithResponse frame s)"
    using assms(1) by (rule wellFormed_sendWithResponse)
  have so: "\<forall>so \<in> set (sockets s). socketTracks frame (length (promises s)) so"
    using assms(1) by (force simp: wellFormed_def socketWf_def socketTracks_def)
  have ti: "\<forall>x \<in> set (timers s). timerTracks frame (length (promises s)) (timerCount s) x"
  proof
    fix x assume "x \<in> set (timers s)"
    with assms(1) have "timerWf (length (promises s)) (timerCount s) x" by (simp add: wellFormed_def)
    then show "timerTracks frame (length (promises s)) (timerCount s) x"
      by (cases "(length (promises s), timerCount s, x)" rule: timerWf.cases) auto
  qed
  have s1: "\<forall>so \<in> set (sockets (addEventListener k (ResponseHandler frame (length (promises s))) (newPromise s))).
              socketTracks frame (length (promises s)) so"
    using so by (auto simp: addEventListener_def socketTracks_updates dest!: in_set_updateSocket)
  have s2: "\<forall>so \<in> set (sockets (socketSend k frame
               (addEventListener k (ResponseHandler frame (length (promises s))) (newPromise s)))).
              socketTracks frame (length (promises s)) so"
    using s1 by (auto simp: socketSend_def socketTracks_updates dest!: in_set_updateSocket)
  have pr: "promises (sendWithResponse frame s) = promises s @ [Pending]"
    unfolding eq by (simp add: socketSend_def addEventListener_def)
  have tm: "timers (sendWithResponse frame s) =
      timers s @ [(timerCount s, 10000, RequestTimeout (ResponseHandler frame (length (promises s))))]"
    unfolding eq by (simp add: socketSend_def addEventListener_def)
  have tc: "timerCount (sendWithResponse frame s) = Suc (timerCount s)"
    unfolding eq by (simp add: socketSend_def addEventListener_def)
  have sk: "sockets (sendWithResponse frame s) = sockets (socketSend k frame
               (addEventListener k (ResponseHandler frame (length (promises s))) (newPromise s)))"
    unfolding eq by simp
  have t: "tracks frame (length (promises s)) (timerCount s) (sendWithResponse frame s)"
    unfolding tracks_def pr tm tc sk using s2 ti by simp
  show ?thesis
    using w t by (simp add: waiting_def tm)
qed

section \<open>Requests that get no answer\<close>

lemma run_snoc: "run s (evs @ [ev]) = step (run s evs) ev"
  by (simp add: run_def)

lemma sendWithResponse_closed:
  "\<not> wsOpen s \<Longrightarrow> promiseState (sendWithResponse frame s) (length (promises s)) = Some (Fulfilled (Some JNull))"
  by (auto simp: sendWithResponse_def Let_def resolve_def settle_def promiseState_Some wsOpen_def
      nth_append split: option.splits)

text \<open>
  Let \<open>sendWithResponse\<close> be called with \<open>frame\<close> in a state that a run of the
  service reaches, and let any events follow of which none is a response message with
  the \<open>id\<close> of the frame. Then the returned promise is pending or resolved to \<open>null\<close>,
  never rejected; while it is pending, the timer of 10000 ms that the call set is still
  set; and when that timer runs out the promise is resolved to \<open>null\<close> (so it is too
  when the socket was not open, where the call resolves it at once).
\<close>

lemma request_resolves_null:
  assumes "reachable s" and "\<forall>ev \<in> set evs. \<not> answers frame ev"
  shows "promiseState (run (sendWithResponse frame s) evs) (length (promises s))
           \<in> {Some Pending, Some (Fulfilled (Some JNull))}
     \<and> (promiseState (run (sendWithResponse frame s) evs) (length (promises s)) = Some Pending \<longrightarrow>
          (timerCount s, 10000, RequestTimeout (ResponseHandler frame (length (promises s))))
            \<in> set (timers (run (sendWithResponse frame s) evs)))
     \<and> promiseState (run (sendWithResponse frame s) (evs @ [TimerFires (timerCount s)])) (length (promises s))
           = Some (Fulfilled (Some JNull))"
proof -
  let ?p = "length (promises s)" and ?T = "timerCount s"
  let ?s1 = "sendWithResponse frame s" and ?s2 = "run (sendWithResponse frame s) evs"
  show ?thesis
  proof (cases "wsOpen s")
    case True
    have "waiting frame ?p ?T ?s1"
      using reachable_wellFormed [OF assms(1)] True by (rule waiting_sendWithResponse)
    then have w: "waiting frame ?p ?T ?s2" using assms(2) by (rule waiting_run)
    then have t: "tracks frame ?p ?T ?s2"
      and e: "promises ?s2 ! ?p = Pending \<longrightarrow>
                (?T, 10000, RequestTimeout (ResponseHandler frame ?p)) \<in> set (timers ?s2)"
      by (simp_all add: waiting_def)
    from t have p: "?p < length (promises ?s2)"
      and v: "promises ?s2 ! ?p = Pending \<or> promises ?s2 ! ?p = Fulfilled (Some JNull)"
      by (simp_all add: tracks_def)
    have f: "promiseState (step ?s2 (TimerFires ?T)) ?p = Some (Fulfilled (Some JNull))"
    proof (cases "promises ?s2 ! ?p = Pending")
      case True
      with e have "(?T, 10000, RequestTimeout (ResponseHandler frame ?p)) \<in> set (timers ?s2)" by simp
      with t show ?thesis by (simp add: fireTimer_own)
    next
      case False
      with v p have "promiseState ?s2 ?p = Some (Fulfilled (Some JNull))" by (simp add: promiseState_Some)
      then show ?thesis
        using settled_step [of ?s2 ?p "Fulfilled (Some JNull)" "TimerFires ?T"] by simp
    qed
    show ?thesis
      using p v e f by (auto simp: promiseState_Some run_snoc)
  next
    case False
    then have "promiseState ?s1 ?p = Some (Fulfilled (Some JNull))" by (rule sendWithResponse_closed)
    then have "promiseState (run ?s1 es) ?p = Some (Fulfilled (Some JNull))" for es
      by (simp add: settled_run)
    then show ?thesis by simp
  qed
qed

lemma exampleOpen_reachable: "reachable exampleOpen"
  unfolding exampleOpen_def exampleService_def by (intro reachable_run reachable_new)

lemma request_resolves_null_example:
  "reachable exampleOpen
   \<and> \<not> answers exampleRequest (Tick 5000)
   \<and> \<not> answers exampleRequest (SocketMessage 0 (Some exampleUnknown))
   \<and> promiseState (run (sendWithResponse exampleRequest exampleOpen)
          [Tick 5000, SocketMessage 0 (Some exampleUnknown)]) 1 = Some Pending
   \<and> promiseState (run (sendWithResponse exampleRequest exampleOpen)
          [Tick 5000, SocketMessage 0 (Some exampleUnknown), TimerFires 0]) 1 = Some (Fulfilled (Some JNull))"
proof -
  have a: "\<forall>ev \<in> set [Tick 5000, SocketMessage 0 (Some exampleUnknown)]. \<not> answers exampleRequest ev"
    by (simp add: exampleUnknown_def)
  have l: "length (promises exampleOpen) = 1" and t: "timerCount exampleOpen = 0"
    by (simp_all add: exampleOpen_def session_ops)
  have p: "promiseState (run (sendWithResponse exampleRequest exampleOpen)
          [Tick 5000, SocketMessage 0 (Some exampleUnknown)]) 1 = Some Pending"
    by (simp add: exampleOpen_def exampleUnknown_def session_ops)
  show ?thesis
    using a p exampleOpen_reachable
      request_resolves_null [OF exampleOpen_reachable a]
    by (simp add: l t)
qed

text \<open>
  What the request leaves behind is its \<open>message\<close> listener. The closure of the timeout
  removes it from the socket that \<open>this.ws\<close> names when the timer runs out, not from
  the socket it was added to: on every other socket the listeners stay as they are.
\<close>

lemma requestTimeout_listeners:
  "k < length (sockets s) \<Longrightarrow>
   listeners (sockets (requestTimeout h s) ! k) =
     (if ws s = Some k then remove1 h (listeners (sockets s ! k)) else listeners (sockets s ! k))"
  by (cases h)
     (simp add: resolve_def removeFromCurrent_def removeEventListener_def updateSocket_def
        nth_list_update split: option.splits)

lemma fireTimer_listeners:
  "find (\<lambda>x. fst x = t) (timers s) = Some (t, d, RequestTimeout h) \<Longrightarrow> k < length (sockets s) \<Longrightarrow>
   listeners (sockets (fireTimer t s) ! k) =
     (if ws s = Some k then remove1 h (listeners (sockets s ! k)) else listeners (sockets s ! k))"
  by (simp add: fireTimer_def Let_def requestTimeout_listeners)

text \<open>
  C4 fails on the code. The request \<open>r1\<close> is sent on the open socket 0 and gets no
  answer. When nothing else happens before its timer runs out, the promise is resolved to
  \<open>null\<close> and the listener of the request is removed from socket 0. When \<open>disconnect\<close>
  is called before the timer runs out, the promise is resolved to \<open>null\<close> as well, but
  \<open>this.ws\<close> is \<open>null\<close> by then and the listener of \<open>r1\<close> stays on socket 0. When
  \<open>connect\<close> is called again before the timer runs out, \<open>this.ws\<close> is the new socket
  1, and the listener of \<open>r1\<close> stays on socket 0, which is still open.
\<close>

theorem timeout_leaves_listener:
  "promiseState exampleSent 1 = Some Pending
   \<and> listeners (sockets exampleSent ! 0) = [ResponseHandler exampleRequest 1]
   \<and> promiseState (run exampleSent [TimerFires 0]) 1 = Some (Fulfilled (Some JNull))
   \<and> listeners (sockets (run exampleSent [TimerFires 0]) ! 0) = []
   \<and> promiseState (run exampleSent [CallDisconnect, TimerFires 0]) 1 = Some (Fulfilled (Some JNull))
   \<and> timers (run exampleSent [CallDisconnect, TimerFires 0]) = []
   \<and> listeners (sockets (run exampleSent [CallDisconnect, TimerFires 0]) ! 0)
         = [ResponseHandler exampleRequest 1]
   \<and> promiseState (run exampleSent [CallConnect None, TimerFires 0]) 1 = Some (Fulfilled (Some JNull))
   \<and> ws (run exampleSent [CallConnect None, TimerFires 0]) = Some 1
   \<and> readyState (sockets (run exampleSent [CallConnect None, TimerFires 0]) ! 0) = OPEN
   \<and> listeners (sockets (run exampleSent [CallConnect None, TimerFires 0]) ! 0)
         = [ResponseHandler exampleRequest 1]"
  by (simp add: exampleSent_def session_ops)

section \<open>Responses that report a failure\<close>

lemma runListener_failure_keeps:
  "\<not> truthy (getProp data ''ok'') \<Longrightarrow> p < length (promises s)
   \<Longrightarrow> promises s ! p = Pending \<or> promises s ! p = Fulfilled (Some JNull)
   \<Longrightarrow> p < length (promises (runListener h (Some data) s))
       \<and> (promises (runListener h (Some data) s) ! p = Pending
            \<or> promises (runListener h (Some data) s) ! p = Fulfilled (Some JNull))"
  by (cases h) (auto simp: resolve_def settle_def nth_list_update)

lemma runListener_failure_own:
  "\<not> truthy (getProp data ''ok'') \<Longrightarrow> getProp data ''type'' = Some (JStr ''res'')
   \<Longrightarrow> getProp data ''id'' = Some (JStr (req_id frame)) \<Longrightarrow> p < length (promises s)
   \<Longrightarrow> promises s ! p = Pending \<or> promises s ! p = Fulfilled (Some JNull)
   \<Longrightarrow> promiseState (runListener (ResponseHandler frame p) (Some data) s) p = Some (Fulfilled (Some JNull))"
  by (auto simp: resolve_def settle_def promiseState_Some falsy_converts)

lemma fold_runListener_failure:
  assumes "\<not> truthy (getProp data ''ok'')" and "getProp data ''type'' = Some (JStr ''res'')"
    and "getProp data ''id'' = Some (JStr (req_id frame))"
  shows "ResponseHandler frame p \<in> set hs \<Longrightarrow> p < length (promises s)
   \<Longrightarrow> promises s ! p = Pending \<or> promises s ! p = Fulfilled (Some JNull)
   \<Longrightarrow> promiseState (fold (\<lambda>h. runListener h (Some data)) hs s) p = Some (Fulfilled (Some JNull))"
proof (induction hs arbitrary: s)
  case Nil
  then show ?case by simp
next
  case (Cons h hs)
  show ?case
  proof (cases "h = ResponseHandler frame p")
    case True
    have "promiseState (runListener h (Some data) s) p = Some (Fulfilled (Some JNull))"
      unfolding True using assms Cons.prems(2,3) by (rule runListener_failure_own)
    then show ?thesis by (simp add: settled_fold_runListener)
  next
    case False
    with Cons.prems(1) have m: "ResponseHandler frame p \<in> set hs" by simp
    from runListener_failure_keeps [OF assms(1) Cons.prems(2,3), of h]
    show ?thesis using Cons.IH [OF m] by simp
  qed
qed

text \<open>
  C5, as the code has it. In a state that a run reaches, let a request wait on socket
  \<open>k\<close> with its promise pending, and let a response message with the \<open>id\<close> of the
  request and a falsy \<open>ok\<close> arrive on that socket. Then the promise that
  \<open>sendWithResponse\<close> returned is resolved to \<open>null\<close>: it is not rejected, and the
  \<open>error\<close> of the response, with its code and message, does not reach the caller.
\<close>

theorem failed_response_resolves_null:
  assumes "reachable s" and "k < length (sockets s)"
    and "ResponseHandler frame p \<in> set (listeners (sockets s ! k))"
    and "promiseState s p = Some Pending"
    and "getProp data ''type'' = Some (JStr ''res'')"
    and "getProp data ''id'' = Some (JStr (req_id frame))"
    and "\<not> truthy (getProp data ''ok'')"
  shows "promiseState (fst (onmessage k (Some data) s)) p = Some (Fulfilled (Some JNull))"
proof -
  from reachable_wellFormed [OF assms(1)] have pe: "pendingRequests s = []"
    by (simp add: wellFormed_def)
  from assms(5) have nn: "data \<noteq> JNull" by auto
  obtain s1 r where h: "handleMessage (Some data) s = (s1, r)" by (cases "handleMessage (Some data) s")
  have "promises (fst (handleMessage (Some data) s)) = promises s"
    using pe assms(5) nn
    by (simp add: handleMessage_fst handleMessage_try_def handleResponse_promises pendingGet_def
        split: option.splits json.splits)
  with h have ps: "promises s1 = promises s" by simp
  from assms(4) have p: "p < length (promises s1)" and v: "promises s1 ! p = Pending \<or> promises s1 ! p = Fulfilled (Some JNull)"
    by (simp_all add: promiseState_Some ps)
  have "promiseState (fold (\<lambda>h. runListener h (Some data)) (listeners (sockets s ! k)) s1) p
          = Some (Fulfilled (Some JNull))"
    using assms(7,5,6,3) p v by (rule fold_runListener_failure)
  then show ?thesis
    using assms(2) h by (simp add: onmessage_def)
qed

lemma exampleSent_reachable: "reachable exampleSent"
  unfolding exampleSent_def exampleService_def by (intro reachable_run reachable_new)

theorem failed_response_resolves_null_witness:
  "reachable exampleSent
   \<and> 0 < length (sockets exampleSent)
   \<and> ResponseHandler exampleRequest 1 \<in> set (listeners (sockets exampleSent ! 0))
   \<and> promiseState exampleSent 1 = Some Pending
   \<and> getProp exampleFailure ''type'' = Some (JStr ''res'')
   \<and> getProp exampleFailure ''id'' = Some (JStr (req_id exampleRequest))
   \<and> \<not> truthy (getProp exampleFailure ''ok'')
   \<and> promiseState (fst (onmessage 0 (Some exampleFailure) exampleSent)) 1 = Some (Fulfilled (Some JNull))"
proof -
  have a: "0 < length (sockets exampleSent)"
    and b: "ResponseHandler exampleRequest 1 \<in> set (listeners (sockets exampleSent ! 0))"
    and c: "promiseState exampleSent 1 = Some Pending"
    by (simp_all add: exampleSent_def session_ops)
  have d: "getProp exampleFailure ''type'' = Some (JStr ''res'')"
    and e: "getProp exampleFailure ''id'' = Some (JStr (req_id exampleRequest))"
    and f: "\<not> truthy (getProp exampleFailure ''ok'')"
    by (simp_all add: exampleFailure_def exampleRequest_def)
  show ?thesis
    using exampleSent_reachable a b c d e f
      failed_response_resolves_null [OF exampleSent_reachable a b c d e f]
    by simp
qed

text \<open>
  C5, as the claim words it, fails: the response \<open>{type: "res", id: "r1", ok: false,
  error: {code: 7, message: "boom"}}\<close> to the request \<open>r1\<close> resolves the promise of
  \<open>sendWithResponse\<close> to \<open>null\<close>; it is not failed with an error of code 7 and message
  \<open>boom\<close>.
\<close>

theorem failed_response_counterexample:
  "promiseState (run exampleService
      [CallConnect None, SocketOpen 0, CallSendWithResponse exampleRequest,
       SocketMessage 0 (Some exampleFailure)]) 1 = Some (Fulfilled (Some JNull))"
  by (simp add: session_ops exampleFailure_def)

section \<open>Disconnecting\<close>

text \<open>
  C2 fails on the code. \<open>sendWithResponse\<close> never puts its request into
  \<open>pendingRequests\<close>, the only requests that \<open>disconnect\<close> rejects. With the request
  \<open>r1\<close> outstanding on an open socket, \<open>pendingRequests\<close> is empty; after
  \<open>disconnect\<close> the promise of the request is still pending and its timer is still set;
  the promise is settled only when that timer runs out, 10000 ms after the request.
\<close>

theorem disconnect_leaves_request_pending:
  "promiseState exampleSent 1 = Some Pending
   \<and> pendingRequests exampleSent = []
   \<and> promiseState (disconnect exampleSent) 1 = Some Pending
   \<and> timers (disconnect exampleSent) = [(0, 10000, RequestTimeout (ResponseHandler exampleRequest 1))]
   \<and> promiseState (fireTimer 0 (disconnect exampleSent)) 1 = Some (Fulfilled (Some JNull))"
  by (simp add: exampleSent_def session_ops)

lemma rejectAll_ws [simp]: "ws (rejectAll xs s) = ws s"
  by (induction xs s rule: rejectAll.induct) (simp_all add: reject_def)

lemma rejectAll_connected [simp]: "connected (rejectAll xs s) = connected s"
  by (induction xs s rule: rejectAll.induct) (simp_all add: reject_def)

lemma rejectAll_connectionState [simp]: "connectionState (rejectAll xs s) = connectionState s"
  by (induction xs s rule: rejectAll.induct) (simp_all add: reject_def)

lemma rejectAll_sockets [simp]: "sockets (rejectAll xs s) = sockets s"
  by (induction xs s rule: rejectAll.induct) (simp_all add: reject_def)

lemma disconnect_handle:
  "ws (disconnect s) = None"
  "\<not> connected (disconnect s)"
  "status (connectionState (disconnect s)) = Disconnected"
  "lastError (connectionState (disconnect s)) = Some ''Manually disconnected''"
  by (simp_all add: disconnect_def Let_def updateStatus_def split: option.splits)

lemma disconnect_closes:
  assumes "ws s = Some k" and "k < length (sockets s)"
  shows "sockets (disconnect s) =
           (sockets s)[k := (if readyState (sockets s ! k) = CONNECTING \<or> readyState (sockets s ! k) = OPEN
                             then (sockets s ! k)\<lparr>readyState := CLOSING\<rparr> else sockets s ! k)]"
  using assms by (simp add: disconnect_def Let_def socketClose_def updateSocket_def)

text \<open>
  C3, as the code has it. \<open>disconnect\<close> clears the handle \<open>ws\<close>, marks the service as
  not connected with the status \<open>disconnected\<close> and the error text
  \<open>Manually disconnected\<close>, and calls \<open>close\<close> on the socket it held: that socket,
  when it was connecting or open, is closing afterwards, and no other socket changes.
  It cancels no reconnect: in a state that a run reaches it leaves the timers as they
  are. The \<open>close\<close> event of a socket, also of the socket that \<open>disconnect\<close> closed,
  sets a reconnect timer of 3000 ms when no disconnect subscriber throws. A reconnect
  timer that runs out reconnects: the status becomes \<open>connecting\<close>.
\<close>

theorem disconnect_keeps_reconnect:
  "ws (disconnect s) = None
   \<and> \<not> connected (disconnect s)
   \<and> status (connectionState (disconnect s)) = Disconnected
   \<and> lastError (connectionState (disconnect s)) = Some ''Manually disconnected''
   \<and> (ws s = Some j \<and> j < length (sockets s) \<longrightarrow>
        sockets (disconnect s) =
          (sockets s)[j := (if readyState (sockets s ! j) = CONNECTING \<or> readyState (sockets s ! j) = OPEN
                            then (sockets s ! j)\<lparr>readyState := CLOSING\<rparr> else sockets s ! j)])
   \<and> (reachable s \<longrightarrow> timers (disconnect s) = timers s)
   \<and> (k < length (sockets s) \<and> (\<forall>cb \<in> set (disconnectCallbacks s). \<not> cb_throws cb reason) \<longrightarrow>
        timers (fst (onclose k code reason s)) = timers s @ [(timerCount s, 3000, Reconnect)])
   \<and> (find (\<lambda>x. fst x = t) (timers s) = Some (t, d, Reconnect) \<longrightarrow>
        fireTimer t s = reconnect (clearTimeout t s)
        \<and> status (connectionState (fireTimer t s)) = Connecting)"
proof -
  have a: "reachable s \<Longrightarrow> timers (disconnect s) = timers s"
    using reachable_wellFormed [of s] by (simp add: wellFormed_def disconnect_timers)
  have dc: "disconnectCallbacks (updateStatus st e ((updateSocket k f s)\<lparr>connected := False\<rparr>))
              = disconnectCallbacks s" for st e f
    by (simp add: updateStatus_def updateSocket_def Let_def split: option.splits)
  have b: "k < length (sockets s) \<Longrightarrow> \<forall>cb \<in> set (disconnectCallbacks s). \<not> cb_throws cb reason \<Longrightarrow>
        timers (fst (onclose k code reason s)) = timers s @ [(timerCount s, 3000, Reconnect)]"
    by (simp add: onclose_def Let_def dc forEachCallback_all_quiet)
  have c: "find (\<lambda>x. fst x = t) (timers s) = Some (t, d, Reconnect) \<Longrightarrow>
        fireTimer t s = reconnect (clearTimeout t s)
        \<and> status (connectionState (fireTimer t s)) = Connecting"
    by (simp add: fireTimer_def reconnect_def connect_def Let_def reject_def)
  show ?thesis
    using a b c disconnect_handle [of s] disconnect_closes [of s j] by blast
qed

lemma exampleClosed_reachable: "reachable exampleClosed"
  unfolding exampleClosed_def exampleService_def by (intro reachable_run reachable_new)

theorem disconnect_keeps_reconnect_witness:
  "ws exampleOpen = Some 0
   \<and> readyState (sockets exampleOpen ! 0) = OPEN
   \<and> ws (disconnect exampleOpen) = None
   \<and> status (connectionState (disconnect exampleOpen)) = Disconnected
   \<and> map readyState (sockets (disconnect exampleOpen)) = [CLOSING]
   \<and> reachable exampleClosed
   \<and> timers exampleClosed = [(0, 3000, Reconnect)]
   \<and> timers (disconnect exampleClosed) = [(0, 3000, Reconnect)]
   \<and> timers (fst (onclose 0 1000 [] (disconnect exampleOpen))) = [(0, 3000, Reconnect)]
   \<and> find (\<lambda>x. fst x = 0) (timers (disconnect exampleClosed)) = Some (0, 3000, Reconnect)
   \<and> status (connectionState (fireTimer 0 (disconnect exampleClosed))) = Connecting"
proof -
  have o: "ws exampleOpen = Some 0" "length (sockets exampleOpen) = 1"
    "readyState (sockets exampleOpen ! 0) = OPEN" "timers exampleOpen = []"
    "timerCount exampleOpen = 0" "disconnectCallbacks exampleOpen = []"
    by (simp_all add: exampleOpen_def session_ops)
  note open_inst = disconnect_keeps_reconnect [where s = exampleOpen and t = 0 and d = 3000
        and k = 0 and j = 0 and code = 1000 and reason = "[]"]
  have h: "ws (disconnect exampleOpen) = None"
    "status (connectionState (disconnect exampleOpen)) = Disconnected"
    using open_inst by blast+
  have so: "sockets (disconnect exampleOpen) = (sockets exampleOpen)[0 := (sockets exampleOpen ! 0)\<lparr>readyState := CLOSING\<rparr>]"
    using open_inst o by simp
  have cl: "map readyState (sockets (disconnect exampleOpen)) = [CLOSING]"
    unfolding so using o(2) by (cases "sockets exampleOpen") simp_all
  have dt: "timers (disconnect exampleOpen) = []"
    using open_inst exampleOpen_reachable o(4) by simp
  have dl: "0 < length (sockets (disconnect exampleOpen))"
    unfolding so using o(2) by simp
  have dcb: "\<forall>cb \<in> set (disconnectCallbacks (disconnect exampleOpen)). \<not> cb_throws cb []"
    by (simp add: exampleOpen_def session_ops)
  have dtc: "timerCount (disconnect exampleOpen) = 0"
    by (simp add: exampleOpen_def session_ops)
  have oc: "timers (fst (onclose 0 1000 [] (disconnect exampleOpen))) = [(0, 3000, Reconnect)]"
    using disconnect_keeps_reconnect [where s = "disconnect exampleOpen" and t = 0 and d = 3000
        and k = 0 and j = 0 and code = 1000 and reason = "[]"] dl dcb dt dtc
    by simp
  have t: "timers exampleClosed = [(0, 3000, Reconnect)]"
    by (simp add: exampleClosed_def session_ops)
  have d: "timers (disconnect exampleClosed) = [(0, 3000, Reconnect)]"
    using disconnect_keeps_reconnect [where s = exampleClosed and t = 0 and d = 3000
        and k = 0 and j = 0 and code = 1000 and reason = "[]"] exampleClosed_reachable t by simp
  have f: "find (\<lambda>x. fst x = 0) (timers (disconnect exampleClosed)) = Some (0, 3000, Reconnect)"
    by (simp add: d)
  have "find (\<lambda>x. fst x = 0) (timers (disconnect exampleClosed)) = Some (0, 3000, Reconnect) \<longrightarrow>
          status (connectionState (fireTimer 0 (disconnect exampleClosed))) = Connecting"
    using disconnect_keeps_reconnect [where s = "disconnect exampleClosed" and t = 0 and d = 3000
        and k = 0 and j = 0 and code = 1000 and reason = "[]"]
    by blast
  with f have c: "status (connectionState (fireTimer 0 (disconnect exampleClosed))) = Connecting"
    by blast
  show ?thesis
    using o(1,3) h cl exampleClosed_reachable t d oc f c by blast
qed

text \<open>
  C3, as the claim words it, fails. A reconnect that is scheduled when \<open>disconnect\<close> is
  called stays scheduled. And after \<open>disconnect\<close> on an open socket, the \<open>close\<close> event
  of that socket schedules a reconnect, which connects again (status \<open>connecting\<close>, a
  second socket) without any call of \<open>connect\<close> by the caller.
\<close>

theorem disconnect_keeps_reconnect_counterexample:
  "(0, 3000, Reconnect) \<in> set (timers (run exampleService
      [CallConnect None, SocketOpen 0, SocketClose 0 1006 [], CallDisconnect]))
   \<and> timers (run exampleService
      [CallConnect None, SocketOpen 0, CallDisconnect, SocketClose 0 1000 []]) = [(0, 3000, Reconnect)]
   \<and> status (connectionState (run exampleService
      [CallConnect None, SocketOpen 0, CallDisconnect, SocketClose 0 1000 [], TimerFires 0])) = Connecting
   \<and> ws (run exampleService
      [CallConnect None, SocketOpen 0, CallDisconnect, SocketClose 0 1000 [], TimerFires 0]) = Some 1"
  by (simp add: session_ops)

end
